theory Spec2Isabelle
  imports Main "HOL-Library.Sublist" "HOL-Library.AList" "HOL-Library.Monad_Syntax"
begin

section \<open>Strings\<close>

text \<open>
  The program is Python 3: a \<open>str\<close> is a sequence of Unicode code points and \<open>len\<close>
  counts code points. The topics and every template of the program are Chinese text, so
  a string is modelled as the list of its code points, and a literal of the source is
  written as the list of the decimal code points of its characters
  (39 is the apostrophe, 12300 and 12301 are the corner brackets, 12290 the ideographic
  full stop, 65292 the fullwidth comma).
\<close>

type_synonym ustring = "nat list"

text \<open>Python's \<open>w in topic\<close> on strings: \<open>w\<close> occurs as a contiguous substring.\<close>

fun str_contains :: "ustring \<Rightarrow> ustring \<Rightarrow> bool" where
  "str_contains w [] = (w = [])"
| "str_contains w (c # cs) = (prefix w (c # cs) \<or> str_contains w cs)"

text \<open>\<open>any(w in topic for w in ws)\<close>.\<close>

definition any_in :: "ustring list \<Rightarrow> ustring \<Rightarrow> bool" where
  "any_in ws topic = list_ex (\<lambda>w. str_contains w topic) ws"

section \<open>Topic classifier (weibo\_hot\_analyzer.py, analyze\_topic\_keywords)\<close>

record topic_analysis =
  atype :: ustring
  theme :: ustring

text \<open>
  The dictionary \<open>theme_patterns\<close> in its insertion order, which is the order the two
  loops visit it in. The eight theme names are, in order: e-commerce and retail,
  entertainment and film, games, technology and digital, social events, cars,
  international, festivals and campaigns.
\<close>

definition theme_patterns :: "(ustring \<times> ustring list) list" where
  "theme_patterns =
    [([30005::nat, 21830, 38646, 21806], [[32982::nat, 19996, 26469], [20140::nat, 19996], [28120::nat, 23453], [22825::nat, 29483], [20215::nat, 26684], [21830::nat, 21697], [36141::nat, 29289], [20248::nat, 24800], [32701::nat, 32466, 26381], [22909::nat, 29289]]),
     ([23089::nat, 20048, 24433, 35270], [[36711::nat, 25103], [28436::nat, 21592], [30005::nat, 24433], [30005::nat, 35270, 21095], [32508::nat, 33402], [26126::nat, 26143], [34203::nat, 20043, 35878], [34081::nat, 24464, 22372], [26377::nat, 27468]]),
     ([28216::nat, 25103], [[19990::nat, 30028, 20043, 22806], [31532::nat, 20116, 20154, 26684], [28216::nat, 25103], [24320::nat, 22823], [29579::nat, 32773], [21407::nat, 31070], [33521::nat, 38596, 32852, 30431]]),
     ([31185::nat, 25216, 25968, 30721], [[25163::nat, 26426], [21326::nat, 20026], [23567::nat, 31859], [33529::nat, 26524], [33455::nat, 29255], [65::nat, 73], [21457::nat, 24067], [26032::nat, 21697]]),
     ([31038::nat, 20250, 28909, 28857], [[28779::nat, 28798], [20107::nat, 25925], [22899::nat, 23401], [26197::nat, 20498], [31163::nat, 32844], [34987::nat, 23553], [20105::nat, 35758]]),
     ([27773::nat, 36710], [[27773::nat, 36710], [38271::nat, 22478], [29305::nat, 26031, 25289], [27604::nat, 20122, 36842], [21457::nat, 24067, 20250], [26032::nat, 36710]]),
     ([22269::nat, 38469], [[38889::nat, 22269], [26085::nat, 26412], [32654::nat, 22269], [20840::nat, 29699], [22269::nat, 38469]]),
     ([33410::nat, 26085, 27963, 21160], [[26032::nat, 24180], [26149::nat, 33410], [21452::nat, 49, 49], [54::nat, 49, 56], [22823::nat, 32043, 22823, 32418]])]"

text \<open>First loop: the first theme whose keyword list holds the topic itself.\<close>

fun exact_pass :: "(ustring \<times> ustring list) list \<Rightarrow> ustring \<Rightarrow> ustring option" where
  "exact_pass [] topic = None"
| "exact_pass ((theme_name, keywords) # rest) topic =
     (if topic \<in> set keywords then Some theme_name else exact_pass rest topic)"

text \<open>Second loop: the first theme one of whose keywords occurs in the topic.\<close>

fun substring_pass :: "(ustring \<times> ustring list) list \<Rightarrow> ustring \<Rightarrow> ustring option" where
  "substring_pass [] topic = None"
| "substring_pass ((theme_name, keywords) # rest) topic =
     (if any_in keywords topic then Some theme_name else substring_pass rest topic)"

text \<open>
  The defaults are "general news" for the type and "hot-spot tracking" for the theme.
  The variable \<open>topic_lower\<close> of the source is never read.
\<close>

definition analyze_topic_keywords :: "ustring \<Rightarrow> topic_analysis" where
  "analyze_topic_keywords topic =
     (case exact_pass theme_patterns topic of
        Some theme_name \<Rightarrow> \<lparr>atype = theme_name, theme = theme_name\<rparr>
      | None \<Rightarrow>
          (case substring_pass theme_patterns topic of
             Some theme_name \<Rightarrow> \<lparr>atype = theme_name, theme = theme_name\<rparr>
           | None \<Rightarrow> \<lparr>atype = [32508::nat, 21512, 36164, 35759], theme = [28909::nat, 28857, 36861, 36394]\<rparr>))"

section \<open>Template generators (weibo\_hot\_analyzer.py)\<close>

text \<open>
  Each generator builds a dictionary from theme name to text and reads it with
  \<open>dict.get(topic_type, default)\<close>; the dictionary is an association list read with
  \<open>map_of\<close>. Python evaluates every entry before the lookup, and no entry can fail: an
  entry only slices and concatenates strings. \<open>topic[:n]\<close> is \<open>take n topic\<close>.
\<close>

definition generate_product_name :: "ustring \<Rightarrow> ustring \<Rightarrow> ustring \<Rightarrow> ustring" where
  "generate_product_name topic topic_type theme_arg =
     (let product_names =
        [([30005::nat, 21830, 38646, 21806], ([12300::nat] @ (take 6 topic) @ [12301::nat, 26234, 33021, 27604, 20215, 21161, 25163])),
         ([23089::nat, 20048, 24433, 35270], ([12300::nat] @ (take 6 topic) @ [12301::nat, 24433, 35270, 36861, 36394, 22120])),
         ([28216::nat, 25103], ([12300::nat] @ (take 6 topic) @ [12301::nat, 28216, 25103, 25915, 30053, 31038, 21306])),
         ([31185::nat, 25216, 25968, 30721], ([12300::nat] @ (take 6 topic) @ [12301::nat, 35780, 27979, 20998, 26512, 24179, 21488])),
         ([31038::nat, 20250, 28909, 28857], ([12300::nat] @ (take 6 topic) @ [12301::nat, 20107, 20214, 36861, 36394, 25253])),
         ([27773::nat, 36710], ([12300::nat] @ (take 6 topic) @ [12301::nat, 36873, 36710, 20915, 31574, 21161, 25163])),
         ([22269::nat, 38469], ([12300::nat] @ (take 6 topic) @ [12301::nat, 20840, 29699, 36164, 35759, 32858, 21512])),
         ([33410::nat, 26085, 27963, 21160], ([12300::nat] @ (take 6 topic) @ [12301::nat, 27963, 21160, 25915, 30053, 25351, 21335]))]
      in case map_of product_names topic_type of
           Some v \<Rightarrow> v
         | None \<Rightarrow> ([12300::nat] @ (take 8 topic) @ [12301::nat, 26234, 33021, 20998, 26512, 21161, 25163]))"

text \<open>
  Two entries of the source are plain strings, not f-strings, and keep the text
  \<open>{topic}\<close> literally: the fifth feature of the entertainment theme and the second
  feature of the default list.
\<close>

definition generate_core_features_by_topic :: "ustring \<Rightarrow> ustring \<Rightarrow> ustring \<Rightarrow> ustring list" where
  "generate_core_features_by_topic topic topic_type theme_arg =
     (let features_map =
        [([30005::nat, 21830, 38646, 21806],
           [([23454::nat, 26102, 20215, 26684, 30417, 25511, 32, 45, 32, 36861, 36394, 39] @ topic @ [39::nat, 30456, 20851, 21830, 21697, 30340, 20215, 26684, 27874, 21160, 65292, 31532, 19968, 26102, 38388, 36890, 30693, 38477, 20215]),
            [21382::nat, 21490, 20215, 26684, 36208, 21183, 32, 45, 32, 23637, 31034, 21830, 21697, 36807, 21435, 51, 20010, 26376, 30340, 20215, 26684, 21464, 21270, 26354, 32447, 65292, 26234, 33021, 39044, 27979, 26368, 20339, 36141, 20080, 26102, 26426],
            [20840::nat, 32593, 27604, 20215, 21151, 33021, 32, 45, 32, 19968, 38190, 23545, 27604, 20140, 19996, 12289, 28120, 23453, 12289, 22825, 29483, 31561, 24179, 21488, 21516, 27454, 21830, 21697, 20215, 26684],
            ([21697::nat, 36136, 35780, 20215, 20998, 26512, 32, 45, 32, 22522, 20110, 39] @ topic @ [39::nat, 30340, 29992, 25143, 35780, 20215, 65292, 65, 73, 29983, 25104, 30495, 23454, 30340, 36136, 37327, 20998, 26512, 25253, 21578]),
            [20248::nat, 24800, 21048, 32858, 21512, 32, 45, 32, 33258, 21160, 25910, 38598, 21508, 24179, 21488, 30456, 20851, 21830, 21697, 30340, 38544, 34255, 20248, 24800, 21048, 21644, 20419, 38144, 20449, 24687]]),
         ([23089::nat, 20048, 24433, 35270],
           [([24433::nat, 35270, 36164, 35759, 36861, 36394, 32, 45, 32, 23454, 26102, 25512, 36865, 39] @ topic @ [39::nat, 30456, 20851, 24433, 35270, 21160, 24577, 12289, 24320, 26426, 28040, 24687, 12289, 25773, 20986, 26102, 38388]),
            [21095::nat, 24773, 26234, 33021, 35299, 26512, 32, 45, 32, 65, 73, 20998, 26512, 21095, 24773, 36208, 21521, 65292, 25552, 20379, 35282, 33394, 20851, 31995, 22270, 35889, 21644, 20851, 38190, 24773, 33410, 35299, 35835],
            [21475::nat, 30865, 35780, 20998, 39044, 27979, 32, 45, 32, 22522, 20110, 31038, 20132, 23186, 20307, 25968, 25454, 65292, 39044, 27979, 24433, 35270, 20316, 21697, 30340, 21475, 30865, 36208, 21521],
            [36861::nat, 21095, 26085, 31243, 31649, 29702, 32, 45, 32, 33258, 21160, 25972, 29702, 26356, 26032, 26102, 38388, 34920, 65292, 19981, 38169, 36807, 20219, 20309, 19968, 38598, 31934, 24425, 20869, 23481],
            [21516::nat, 22909, 31038, 21306, 20114, 21160, 32, 45, 32, 19982, 20851, 27880, 39, 123, 116, 111, 112, 105, 99, 125, 39, 30340, 35266, 20247, 23454, 26102, 20132, 27969, 35752, 35770]]),
         ([28216::nat, 25103],
           [([28216::nat, 25103, 25915, 30053, 24211, 32, 45, 32, 31934, 36873, 39] @ topic @ [39::nat, 26368, 26032, 25915, 30053, 12289, 38544, 34255, 24425, 34507, 12289, 36890, 20851, 25216, 24039]),
            [23454::nat, 26102, 25112, 25253, 36861, 36394, 32, 45, 32, 20851, 27880, 28216, 25103, 36187, 20107, 21160, 24577, 65292, 32844, 19994, 36873, 25163, 25805, 20316, 20998, 26512],
            [32452::nat, 38431, 21305, 37197, 31995, 32479, 32, 45, 32, 24555, 36895, 25214, 21040, 24535, 21516, 36947, 21512, 30340, 38431, 21451, 19968, 36215, 28216, 25103],
            [29256::nat, 26412, 26356, 26032, 35299, 35835, 32, 45, 32, 27599, 27425, 26356, 26032, 21518, 31532, 19968, 26102, 38388, 35299, 26512, 25913, 21160, 20869, 23481, 21644, 24433, 21709],
            [28216::nat, 25103, 25968, 25454, 20998, 26512, 32, 45, 32, 20010, 20154, 28216, 25103, 25968, 25454, 21487, 35270, 21270, 65292, 25552, 20379, 25552, 21319, 24314, 35758]]),
         ([31185::nat, 25216, 25968, 30721],
           [([28145::nat, 24230, 35780, 27979, 35299, 35835, 32, 45, 32, 38024, 23545, 39] @ topic @ [39::nat, 30340, 19987, 19994, 35780, 27979, 27719, 24635, 21644, 36141, 20080, 24314, 35758]),
            [21442::nat, 25968, 23545, 27604, 24037, 20855, 32, 45, 32, 19982, 31454, 21697, 36827, 34892, 35814, 32454, 21442, 25968, 23545, 27604, 65292, 19968, 30446, 20102, 28982],
            [29992::nat, 25143, 30495, 23454, 21453, 39304, 32, 45, 32, 25910, 38598, 30495, 23454, 29992, 25143, 30340, 20351, 29992, 20307, 39564, 21644, 38382, 39064, 21453, 39304],
            [21457::nat, 24067, 26102, 38388, 25552, 37266, 32, 45, 32, 26032, 21697, 21457, 24067, 20498, 35745, 26102, 65292, 31532, 19968, 26102, 38388, 33719, 21462, 36141, 20080, 38142, 25509],
            [24615::nat, 20215, 27604, 20998, 26512, 32, 45, 32, 32508, 21512, 20215, 26684, 12289, 24615, 33021, 12289, 21475, 30865, 35745, 31639, 24615, 20215, 27604, 24471, 20998]]),
         ([31038::nat, 20250, 28909, 28857],
           [([20107::nat, 20214, 26102, 38388, 32447, 36824, 21407, 32, 45, 32, 26803, 29702, 39] @ topic @ [39::nat, 30340, 23436, 25972, 21457, 23637, 33033, 32476, 65292, 20851, 38190, 33410, 28857, 19968, 30446, 20102, 28982]),
            [22810::nat, 26041, 35266, 28857, 32858, 21512, 32, 45, 32, 27719, 38598, 19981, 21516, 31435, 22330, 12289, 19981, 21516, 35282, 24230, 30340, 25253, 36947, 21644, 35780, 35770],
            [20449::nat, 24687, 30495, 20266, 36776, 26512, 32, 45, 32, 65, 73, 36741, 21161, 21028, 26029, 20449, 24687, 30495, 23454, 24615, 65292, 26631, 27880, 19981, 23454, 20256, 38395],
            [24433::nat, 21709, 33539, 22260, 20998, 26512, 32, 45, 32, 23637, 31034, 20107, 20214, 28041, 21450, 30340, 22320, 22495, 12289, 20154, 32676, 21644, 34892, 19994, 24433, 21709],
            [21518::nat, 32493, 36319, 36394, 25552, 37266, 32, 45, 32, 20107, 20214, 26377, 26032, 36827, 23637, 26102, 33258, 21160, 25512, 36865, 26356, 26032]]),
         ([27773::nat, 36710],
           [([36710::nat, 22411, 28145, 24230, 23545, 27604, 32, 45, 32, 39] @ topic @ [39::nat, 19982, 21516, 32423, 31454, 21697, 30340, 20840, 26041, 20301, 23545, 27604, 20998, 26512]),
            [30495::nat, 23454, 36710, 20027, 21475, 30865, 32, 45, 32, 25910, 38598, 38271, 26399, 20351, 29992, 35813, 36710, 22411, 30340, 30495, 23454, 21453, 39304],
            [36141::nat, 36710, 26102, 26426, 24314, 35758, 32, 45, 32, 20998, 26512, 20248, 24800, 25919, 31574, 12289, 24211, 23384, 24773, 20917, 65292, 24314, 35758, 26368, 20339, 36141, 36710, 26102, 38388],
            [37197::nat, 32622, 26234, 33021, 25512, 33616, 32, 45, 32, 26681, 25454, 20351, 29992, 22330, 26223, 25512, 33616, 26368, 36866, 21512, 30340, 37197, 32622, 32452, 21512],
            [29992::nat, 36710, 25104, 26412, 35745, 31639, 32, 45, 32, 21253, 21547, 20445, 38505, 12289, 27833, 32791, 12289, 20445, 20859, 30340, 20840, 29983, 21629, 21608, 26399, 25104, 26412]]),
         ([22269::nat, 38469],
           [([22810::nat, 35821, 35328, 36164, 35759, 32858, 21512, 32, 45, 32, 25910, 38598, 20840, 29699, 23186, 20307, 23545, 39] @ topic @ [39::nat, 30340, 19981, 21516, 25253, 36947]),
            [32972::nat, 26223, 30693, 35782, 31185, 26222, 32, 45, 32, 25552, 20379, 20107, 20214, 30456, 20851, 30340, 21382, 21490, 12289, 22320, 29702, 12289, 25919, 27835, 32972, 26223],
            [19987::nat, 23478, 35266, 28857, 35299, 35835, 32, 45, 32, 36992, 35831, 22269, 38469, 20851, 31995, 19987, 23478, 20998, 26512, 20107, 20214, 28145, 23618, 21547, 20041],
            [23454::nat, 26102, 21160, 24577, 25512, 36865, 32, 45, 32, 37325, 22823, 36827, 23637, 31532, 19968, 26102, 38388, 36890, 30693],
            [24433::nat, 21709, 39044, 27979, 20998, 26512, 32, 45, 32, 20998, 26512, 20107, 20214, 23545, 21508, 39046, 22495, 21487, 33021, 20135, 29983, 30340, 24433, 21709]]),
         ([33410::nat, 26085, 27963, 21160],
           [([27963::nat, 21160, 25915, 30053, 22823, 20840, 32, 45, 32, 39] @ topic @ [39::nat, 26399, 38388, 21508, 24179, 21488, 20248, 24800, 27963, 21160, 25972, 29702]),
            [30465::nat, 38065, 26041, 26696, 25512, 33616, 32, 45, 32, 65, 73, 35745, 31639, 26368, 20248, 36141, 20080, 32452, 21512, 65292, 26368, 22823, 21270, 30465, 38065],
            [26102::nat, 38388, 36724, 25552, 37266, 32, 45, 32, 37325, 35201, 27963, 21160, 33410, 28857, 20498, 35745, 26102, 25552, 37266],
            [36991::nat, 22353, 25351, 21335, 32, 45, 32, 22522, 20110, 24448, 24180, 32463, 39564, 65292, 25552, 37266, 24120, 35265, 22871, 36335, 21644, 38519, 38449],
            [31036::nat, 21697, 25512, 33616, 21161, 25163, 32, 45, 32, 26681, 25454, 39044, 31639, 21644, 23545, 35937, 26234, 33021, 25512, 33616, 31036, 29289]])]
      in case map_of features_map topic_type of
           Some v \<Rightarrow> v
         | None \<Rightarrow>
            [([26234::nat, 33021, 20869, 23481, 25512, 33616, 32, 45, 32, 65, 73, 26681, 25454, 39] @ topic @ [39::nat, 25512, 36865, 26368, 30456, 20851, 30340, 20869, 23481]),
             [23454::nat, 26102, 21160, 24577, 36861, 36394, 32, 45, 32, 31532, 19968, 26102, 38388, 33719, 21462, 39, 123, 116, 111, 112, 105, 99, 125, 39, 30340, 26368, 26032, 36827, 23637],
             [20010::nat, 24615, 21270, 23450, 21046, 32, 45, 32, 26681, 25454, 29992, 25143, 20559, 22909, 33258, 23450, 20041, 23637, 31034, 20869, 23481],
             [31038::nat, 20132, 20114, 21160, 20998, 20139, 32, 45, 32, 25903, 25345, 19968, 38190, 20998, 20139, 21040, 21508, 22823, 24179, 21488],
             [25968::nat, 25454, 21487, 35270, 21270, 30475, 26495, 32, 45, 32, 30452, 35266, 23637, 31034, 20851, 38190, 25968, 25454, 21644, 36235, 21183]])"

definition generate_pain_points_by_topic :: "ustring \<Rightarrow> ustring \<Rightarrow> ustring \<Rightarrow> ustring list" where
  "generate_pain_points_by_topic topic topic_type theme_arg =
     (let pain_points_map =
        [([30005::nat, 21830, 38646, 21806],
           [([24819::nat, 20102, 35299, 39] @ topic @ [39::nat, 30340, 30495, 23454, 20215, 26684, 65292, 20294, 19981, 21516, 24179, 21488, 20215, 26684, 24046, 24322, 22823, 65292, 23545, 27604, 32791, 26102, 32791, 21147]),
            [19981::nat, 30693, 36947, 20160, 20040, 26102, 20505, 26159, 26368, 20339, 36141, 20080, 26102, 26426, 65292, 24597, 20080, 36149, 20102],
            [21830::nat, 21697, 35780, 20215, 30495, 20551, 38590, 36776, 65292, 21047, 21333, 22909, 35780, 28151, 26434, 65292, 38590, 20197, 21028, 26029, 30495, 23454, 36136, 37327],
            [20248::nat, 24800, 21048, 20998, 25955, 22312, 21508, 20010, 24179, 21488, 65292, 39046, 21462, 21644, 20351, 29992, 27969, 31243, 32321, 29712],
            [32570::nat, 20047, 19987, 19994, 30340, 21830, 21697, 20998, 26512, 65292, 36141, 20080, 20915, 31574, 32570, 20047, 25968, 25454, 25903, 25745]]),
         ([23089::nat, 20048, 24433, 35270],
           [([39::nat] @ topic @ [39::nat, 30456, 20851, 20449, 24687, 20998, 25955, 22312, 21508, 22823, 24179, 21488, 65292, 25910, 38598, 25972, 29702, 40635, 28902]),
            [21095::nat, 24773, 35752, 35770, 21095, 36879, 28151, 26434, 65292, 24819, 30475, 20998, 26512, 21448, 24597, 34987, 21095, 36879],
            [24433::nat, 35270, 20316, 21697, 36136, 37327, 21442, 24046, 19981, 40784, 65292, 28010, 36153, 26102, 38388, 22312, 28866, 29255, 19978],
            [26356::nat, 26032, 26102, 38388, 19981, 22266, 23450, 65292, 32463, 24120, 38169, 36807, 26368, 26032, 19968, 38598],
            [25214::nat, 19981, 21040, 21516, 22909, 20132, 27969, 65292, 29420, 33258, 36861, 21095, 47, 36861, 26143, 32570, 23569, 20114, 21160, 20048, 36259]]),
         ([28216::nat, 25103],
           [([39::nat] @ topic @ [39::nat, 25915, 30053, 25955, 33853, 21508, 22788, 65292, 26597, 25214, 22256, 38590, 19988, 36136, 37327, 21442, 24046]),
            [21333::nat, 25490, 28216, 25103, 20307, 39564, 24046, 65292, 25214, 19981, 21040, 38752, 35889, 30340, 38431, 21451],
            [28216::nat, 25103, 39057, 32321, 26356, 26032, 65292, 36319, 19981, 19978, 29256, 26412, 21464, 21270, 23548, 33268, 25805, 20316, 21464, 24418],
            [24819::nat, 25552, 21319, 25216, 26415, 20294, 32570, 20047, 31995, 32479, 24615, 30340, 23398, 20064, 36164, 28304],
            [28216::nat, 25103, 25968, 25454, 20998, 25955, 65292, 26080, 27861, 30452, 35266, 30475, 21040, 33258, 24049, 30340, 36827, 27493]]),
         ([31185::nat, 25216, 25968, 30721],
           [([39::nat] @ topic @ [39::nat, 30456, 20851, 35780, 27979, 20449, 24687, 26434, 20081, 65292, 19987, 19994, 21644, 23458, 35266, 30340, 20869, 23481, 38590, 25214]),
            [21442::nat, 25968, 22797, 26434, 30475, 19981, 25026, 65292, 19981, 30693, 36947, 21738, 27454, 26356, 36866, 21512, 33258, 24049],
            [29992::nat, 25143, 21453, 39304, 20998, 25955, 65292, 36141, 20080, 21069, 24456, 38590, 20102, 35299, 30495, 23454, 20351, 29992, 20307, 39564],
            [26032::nat, 21697, 21457, 24067, 20449, 24687, 28382, 21518, 65292, 38169, 36807, 39318, 21457, 20248, 24800],
            [32570::nat, 20047, 27178, 21521, 23545, 27604, 65292, 19981, 28165, 26970, 24615, 20215, 27604, 22914, 20309]]),
         ([31038::nat, 20250, 28909, 28857],
           [([39::nat] @ topic @ [39::nat, 20449, 24687, 30495, 20551, 38590, 36776, 65292, 35875, 35328, 21644, 23448, 26041, 28040, 24687, 28151, 26434]),
            [20107::nat, 20214, 25253, 36947, 29255, 38754, 65292, 21482, 30475, 21040, 21333, 26041, 38754, 31435, 22330, 65292, 32570, 20047, 20840, 38754, 35270, 35282],
            [21518::nat, 32493, 36319, 36827, 19981, 21450, 26102, 65292, 24819, 30693, 36947, 32467, 26524, 21364, 25214, 19981, 21040, 19979, 25991],
            [35752::nat, 35770, 24773, 32490, 21270, 20005, 37325, 65292, 29702, 24615, 23458, 35266, 30340, 20998, 26512, 38590, 20197, 21457, 29616],
            [32570::nat, 20047, 32972, 26223, 30693, 35782, 65292, 30475, 19981, 25026, 20107, 20214, 30340, 28145, 23618, 21547, 20041]]),
         ([27773::nat, 36710],
           [([39::nat] @ topic @ [39::nat, 36710, 22411, 20247, 22810, 65292, 19981, 30693, 36947, 21738, 27454, 26368, 36866, 21512, 33258, 24049, 30340, 38656, 27714]),
            [38144::nat, 21806, 35805, 26415, 30495, 20551, 38590, 36776, 65292, 25285, 24515, 34987, 24573, 24736],
            [37197::nat, 32622, 22797, 26434, 36873, 35013, 22256, 38590, 65292, 19981, 30693, 36947, 21738, 20123, 37197, 32622, 23454, 29992],
            [36141::nat, 36710, 26102, 26426, 38590, 25226, 25569, 65292, 24597, 20080, 26089, 20102, 20248, 24800, 65292, 20080, 26202, 20102, 28072, 20215],
            [32570::nat, 20047, 30495, 23454, 36710, 20027, 21453, 39304, 65292, 25552, 36710, 21518, 21457, 29616, 38382, 39064]]),
         ([22269::nat, 38469],
           [([39::nat] @ topic @ [39::nat, 25253, 36947, 35821, 35328, 38556, 30861, 65292, 21482, 33021, 30475, 20013, 25991, 20108, 25163, 36164, 35759]),
            [32570::nat, 20047, 22269, 38469, 32972, 26223, 30693, 35782, 65292, 30475, 19981, 25026, 20107, 20214, 30340, 26469, 40857, 21435, 33033],
            [20449::nat, 24687, 26469, 28304, 21333, 19968, 65292, 23481, 26131, 24418, 25104, 29255, 38754, 35748, 30693],
            [19987::nat, 19994, 20998, 26512, 38376, 27099, 39640, 65292, 26222, 36890, 29992, 25143, 38590, 20197, 28145, 20837, 29702, 35299],
            [26102::nat, 25928, 24615, 24046, 65292, 37325, 35201, 26032, 38395, 24310, 36831, 25165, 33021, 30475, 21040]]),
         ([33410::nat, 26085, 27963, 21160],
           [([39::nat] @ topic @ [39::nat, 26399, 38388, 27963, 21160, 35268, 21017, 22797, 26434, 65292, 30475, 21322, 22825, 20063, 25630, 19981, 28165, 26970]),
            [20248::nat, 24800, 21048, 38480, 21046, 26465, 20214, 22810, 65292, 20351, 29992, 26102, 21457, 29616, 19981, 31526, 21512, 26465, 20214],
            [36319::nat, 39118, 28040, 36153, 21518, 21457, 29616, 19981, 23454, 29992, 65292, 28010, 36153, 38065],
            [27963::nat, 21160, 20449, 24687, 20998, 25955, 65292, 38169, 36807, 20102, 24456, 22810, 30495, 27491, 20248, 24800, 30340, 22909, 26426, 20250],
            [31036::nat, 21697, 36873, 25321, 22256, 38590, 65292, 36865, 37325, 22797, 20102, 25110, 32773, 36865, 30340, 19981, 21512, 36866]])]
      in case map_of pain_points_map topic_type of
           Some v \<Rightarrow> v
         | None \<Rightarrow>
            [([20851::nat, 20110, 39] @ topic @ [39::nat, 30340, 20449, 24687, 20998, 25955, 22312, 21508, 20010, 24179, 21488, 65292, 25910, 38598, 25972, 29702, 32791, 26102]),
             [32570::nat, 20047, 19987, 19994, 28145, 24230, 20998, 26512, 65292, 21482, 30475, 21040, 34920, 38754, 29616, 35937],
             [20010::nat, 24615, 21270, 25512, 33616, 19981, 36275, 65292, 34987, 26080, 20851, 20449, 24687, 24178, 25200],
             [20114::nat, 21160, 20998, 20139, 20307, 39564, 24046, 65292, 20248, 36136, 20869, 23481, 20256, 25773, 21463, 38480],
             [25968::nat, 25454, 21487, 35270, 21270, 19981, 22815, 65292, 20851, 38190, 20449, 24687, 19981, 30452, 35266]])"

definition generate_target_users_by_topic :: "ustring \<Rightarrow> ustring \<Rightarrow> ustring" where
  "generate_target_users_by_topic topic topic_type =
     (let user_map =
        [([30005::nat, 21830, 38646, 21806], ([20851::nat, 27880, 39] @ topic @ [39::nat, 30340, 32593, 36141, 29233, 22909, 32773, 65292, 36861, 27714, 39640, 24615, 20215, 27604, 65292, 27880, 37325, 21830, 21697, 30495, 23454, 35780, 20215, 65292, 24076, 26395, 29992, 26368, 20248, 24800, 30340, 20215, 26684, 20080, 21040, 24515, 20202, 21830, 21697])),
         ([23089::nat, 20048, 24433, 35270], ([20851::nat, 27880, 39] @ topic @ [39::nat, 30340, 24433, 35270, 23089, 20048, 29233, 22909, 32773, 65292, 36861, 21095, 36861, 26143, 26063, 65292, 21916, 27426, 19982, 20182, 20154, 35752, 35770, 20998, 20139, 65292, 24076, 26395, 33719, 21462, 26368, 26032, 26368, 20840, 30340, 23089, 20048, 36164, 35759])),
         ([28216::nat, 25103], ([39::nat] @ topic @ [39::nat, 30340, 29609, 23478, 32676, 20307, 65292, 21253, 25324, 26032, 25163, 21644, 32769, 29609, 23478, 65292, 24076, 26395, 25552, 21319, 28216, 25103, 25216, 24039, 65292, 23547, 25214, 28216, 25103, 20249, 20276, 65292, 20102, 35299, 28216, 25103, 26368, 26032, 21160, 24577])),
         ([31185::nat, 25216, 25968, 30721], ([23545::nat, 39] @ topic @ [39::nat, 24863, 20852, 36259, 30340, 31185, 25216, 29233, 22909, 32773, 65292, 27880, 37325, 20135, 21697, 24615, 33021, 21644, 24615, 20215, 27604, 65292, 36141, 20080, 21069, 21916, 27426, 20570, 21151, 35838, 30740, 31350])),
         ([31038::nat, 20250, 28909, 28857], ([20851::nat, 27880, 39] @ topic @ [39::nat, 30340, 31038, 20250, 20844, 20247, 65292, 24076, 26395, 20102, 35299, 20107, 20214, 30495, 30456, 21644, 21508, 26041, 35266, 28857, 65292, 36861, 27714, 23458, 35266, 29702, 24615, 30340, 20449, 24687])),
         ([27773::nat, 36710], ([32771::nat, 34385, 36141, 20080, 39] @ topic @ [39::nat, 30456, 20851, 36710, 22411, 30340, 28040, 36153, 32773, 65292, 27491, 22312, 36873, 36710, 23545, 27604, 65292, 38656, 35201, 19987, 19994, 30340, 36141, 36710, 24314, 35758])),
         ([22269::nat, 38469], ([20851::nat, 27880, 39] @ topic @ [39::nat, 22269, 38469, 26032, 38395, 30340, 29992, 25143, 65292, 24076, 26395, 33719, 21462, 22810, 35282, 24230, 30340, 28145, 24230, 25253, 36947])),
         ([33410::nat, 26085, 27963, 21160], ([21442::nat, 19982, 39] @ topic @ [39::nat, 30456, 20851, 27963, 21160, 30340, 29992, 25143, 65292, 24076, 26395, 26368, 22823, 21270, 20248, 24800, 65292, 33719, 24471, 26368, 20339, 27963, 21160, 20307, 39564]))]
      in case map_of user_map topic_type of
           Some v \<Rightarrow> v
         | None \<Rightarrow> ([20851::nat, 27880, 39] @ topic @ [39::nat, 35805, 39064, 30340, 29992, 25143, 32676, 20307, 65292, 24076, 26395, 33719, 21462, 30456, 20851, 28145, 24230, 20449, 24687, 21644, 19987, 19994, 20998, 26512]))"

definition generate_innovation_points_by_topic :: "ustring \<Rightarrow> ustring \<Rightarrow> ustring list" where
  "generate_innovation_points_by_topic topic theme_arg =
     [([39318::nat, 21019, 38024, 23545, 39] @ topic @ [39::nat, 22330, 26223, 30340, 19987, 19994, 20998, 26512, 27169, 22411]),
      [65::nat, 73, 26234, 33021, 35782, 21035, 20851, 38190, 20449, 24687, 65292, 36807, 28388, 22122, 38899, 20869, 23481],
      [22810::nat, 32500, 24230, 25968, 25454, 34701, 21512, 65292, 25552, 20379, 20840, 26223, 24335, 35270, 35282],
      [23454::nat, 26102, 36861, 36394, 43, 21382, 21490, 22238, 28335, 65292, 23436, 25972, 25226, 25569, 20107, 20214, 33033, 32476],
      [31038::nat, 20132, 21270, 21327, 20316, 65292, 35753, 29992, 25143, 21442, 19982, 20869, 23481, 20849, 24314]]"

record potential_info =
  market_size :: ustring
  growth_stage :: ustring
  competitive_advantage :: ustring
  revenue_model :: ustring

definition generate_market_potential_by_topic :: "ustring \<Rightarrow> ustring \<Rightarrow> potential_info" where
  "generate_market_potential_by_topic topic theme_arg =
     \<lparr>market_size = ([22522::nat, 20110, 39] @ topic @ [39::nat, 30340, 22402, 30452, 32454, 20998, 24066, 22330, 65292, 29992, 25143, 22522, 25968, 25345, 32493, 22686, 38271]),
      growth_stage = [24555::nat, 36895, 25104, 38271, 26399, 65292, 24066, 22330, 28508, 21147, 22823],
      competitive_advantage = ([28145::nat, 32789] @ topic @ [32454::nat, 20998, 39046, 22495, 65292, 24418, 25104, 19987, 19994, 22721, 22418]),
      revenue_model = [20250::nat, 21592, 35746, 38405, 43, 22686, 20540, 26381, 21153, 43, 31934, 20934, 24191, 21578]\<rparr>"

section \<open>The Python runtime\<close>

text \<open>
  The scorer calls three functions of the Python runtime that are not code of this
  repository: the built-in \<open>hash\<close> on a string, \<open>random.seed\<close> and \<open>random.randint\<close>.
  They are parameters of the model. \<open>hash_str\<close> is the string hash of the running
  process (CPython salts it per process unless \<open>PYTHONHASHSEED\<close> is fixed);
  \<open>seed n\<close> is the state of the module's generator after \<open>random.seed(n)\<close>, which
  replaces whatever state there was; \<open>randint s a b\<close> draws from the state \<open>s\<close> and
  returns the number with the next state.
\<close>

record 's runtime =
  hash_str :: "ustring \<Rightarrow> int"
  seed :: "int \<Rightarrow> 's"
  randint :: "'s \<Rightarrow> int \<Rightarrow> int \<Rightarrow> int \<times> 's"

text \<open>
  The documented contract of \<open>random.randint(a, b)\<close>: an integer \<open>N\<close> with
  \<open>a <= N <= b\<close>. It is a hypothesis of the theorems that need it.
\<close>

definition randint_in_range :: "'s runtime \<Rightarrow> bool" where
  "randint_in_range rt =
     (\<forall>s a b. a \<le> b \<longrightarrow> a \<le> fst (randint rt s a b) \<and> fst (randint rt s a b) \<le> b)"

text \<open>
  A small runtime to evaluate the model on: the hash is a salt plus the sum of the code
  points, seeding stores the absolute value, and a draw reduces the state into the range
  and triples the state.
\<close>

definition demo_runtime :: "int \<Rightarrow> int runtime" where
  "demo_runtime salt =
     \<lparr>hash_str = (\<lambda>t. salt + int (sum_list t)),
      seed = (\<lambda>n. \<bar>n\<bar>),
      randint = (\<lambda>s a b. (a + s mod (b - a + 1), 3 * s))\<rparr>"

section \<open>Scorer (weibo\_hot\_analyzer.py, calculate\_scores)\<close>

record scoreset =
  total :: int
  interest_score :: int
  utility_score :: int
  innovation :: int
  pain_point :: int
  potential :: int
  social :: int
  practicality :: int
  feasibility :: int

text \<open>\<open>round(x, 1)\<close> on a Python \<open>int\<close> returns the \<open>int\<close> unchanged.\<close>

definition round1 :: "int \<Rightarrow> int" where
  "round1 x = x"

text \<open>
  The generator is the global one of the module \<open>random\<close>: the function takes its
  state and returns the state it leaves. The incoming state is overwritten by the seeding.
\<close>

definition calculate_scores :: "'s runtime \<Rightarrow> ustring \<Rightarrow> 's \<Rightarrow> scoreset \<times> 's" where
  "calculate_scores rt topic s0 =
     (let s1 = seed rt (hash_str rt topic);
          (innovation_v, s2) = randint rt s1 15 30;
          (pain_point_v, s3) = randint rt s2 15 25;
          (potential_v, s4) = randint rt s3 10 15;
          (social_v, s5) = randint rt s4 5 10;
          interest = innovation_v + pain_point_v + potential_v + social_v;
          (practicality_v, s6) = randint rt s5 5 10;
          (feasibility_v, s7) = randint rt s6 5 10;
          utility = practicality_v + feasibility_v;
          total_score = round1 (interest + utility)
      in (\<lparr>total = total_score,
           interest_score = interest,
           utility_score = utility,
           innovation = innovation_v,
           pain_point = pain_point_v,
           potential = potential_v,
           social = social_v,
           practicality = practicality_v,
           feasibility = feasibility_v\<rparr>, s7))"

section \<open>Event timeline text (weibo\_hot\_analyzer.py, generate\_event\_timeline)\<close>

record search_result =
  title :: ustring
  url :: ustring

text \<open>
  \<open>s.split(sep)[0]\<close> is the part of \<open>s\<close> before the first separator (all of \<open>s\<close> when
  there is none). The separators are the underscore 95, the hyphen 45 and the bar 124.
\<close>

definition before_sep :: "nat \<Rightarrow> ustring \<Rightarrow> ustring" where
  "before_sep sep s = takeWhile (\<lambda>c. c \<noteq> sep) s"

definition split_title :: "ustring \<Rightarrow> ustring" where
  "split_title t = before_sep 124 (before_sep 45 (before_sep 95 t))"

text \<open>
  \<open>str.strip()\<close> removes the characters for which \<open>str.isspace\<close> holds from both ends.
\<close>

definition is_space :: "nat \<Rightarrow> bool" where
  "is_space c =
     ((9 \<le> c \<and> c \<le> 13) \<or> (28 \<le> c \<and> c \<le> 32) \<or> c = 133 \<or> c = 160 \<or> c = 5760
      \<or> (8192 \<le> c \<and> c \<le> 8202) \<or> c = 8232 \<or> c = 8233 \<or> c = 8239 \<or> c = 8287
      \<or> c = 12288)"

definition py_strip :: "ustring \<Rightarrow> ustring" where
  "py_strip s = rev (dropWhile is_space (rev (dropWhile is_space s)))"

text \<open>
  The loop over \<open>search_results[:5]\<close>: a result is kept when its title is not empty and
  the part before the first separator has more than 10 and fewer than 80 characters; what
  is appended is that part stripped.
\<close>

fun event_key_info :: "search_result list \<Rightarrow> ustring list" where
  "event_key_info [] = []"
| "event_key_info (r # rs) =
     (let clean_title = split_title (title r)
      in if title r \<noteq> [] \<and> 10 < length clean_title \<and> length clean_title < 80
         then py_strip clean_title # event_key_info rs
         else event_key_info rs)"

text \<open>\<open>any(w in t for t in key_info for w in ws)\<close>.\<close>

definition any_word_in_any :: "ustring list \<Rightarrow> ustring list \<Rightarrow> bool" where
  "any_word_in_any ws key_info = list_ex (\<lambda>t. list_ex (\<lambda>w. str_contains w t) ws) key_info"

text \<open>\<open>sep.join(parts)\<close>.\<close>

fun join :: "ustring \<Rightarrow> ustring list \<Rightarrow> ustring" where
  "join sep [] = []"
| "join sep [p] = p"
| "join sep (p # q # ps) = p @ sep @ join sep (q # ps)"

text \<open>
  The context branch, entered with the first two entries \<open>k0\<close> and \<open>k1\<close> of \<open>key_info\<close>
  (it has at least two) and its last entry \<open>kl\<close>.
\<close>

definition event_timeline_from_context :: "ustring \<Rightarrow> ustring list \<Rightarrow> ustring \<Rightarrow> ustring \<Rightarrow> ustring \<Rightarrow> ustring" where
  "event_timeline_from_context topic key_info k0 k1 kl =
     (let has_early = any_word_in_any [[26333::nat, 20809], [26333::nat, 20809, 20102], [39318::nat, 27425], [29190::nat, 26009], [36215::nat, 22240]] key_info;
          has_develop = any_word_in_any [[22238::nat, 24212], [28548::nat, 28165], [36827::nat, 23637], [26368::nat, 26032], [21518::nat, 32493], [21457::nat, 37237]] key_info;
          has_result = any_word_in_any [[32467::nat, 26524], [23459::nat, 24067], [23450::nat, 35770], [22788::nat, 32602], [35299::nat, 20915]] key_info;
          part0 = ([39::nat] @ topic @ [39::nat, 20107, 20214, 24341, 21457, 20851, 27880]);
          part1 = (if has_early
                   then ([21021::nat, 26399] @ (if 30 < length k0 then take 30 k0 else k0))
                   else [30456::nat, 20851, 20869, 23481, 22312, 32593, 32476, 19978, 24320, 22987, 20256, 25773]);
          part2 = (if has_develop
                   then ([38543::nat, 21518] @ (if 30 < length k1 then take 30 k1 else k1))
                   else [35752::nat, 35770, 28909, 24230, 25345, 32493, 25856, 21319]);
          part3 = (if has_result
                   then ([26368::nat, 32456] @ (if 25 < length kl then take 25 kl else kl))
                   else [30446::nat, 21069, 20107, 20214, 20173, 22312, 25345, 32493, 21457, 37237, 20013]);
          timeline_text = join [12290::nat] [part0, part1, part2, part3] @ [12290::nat]
      in if 100 < length timeline_text
         then ([39::nat] @ topic @ [39::nat, 24341, 21457, 28909, 35758, 12290] @ (take 25 k0) @ [46::nat, 46, 46, 30446, 21069, 25345, 32493, 20851, 27880, 12290])
         else if length timeline_text < 50
         then timeline_text @ [30456::nat, 20851, 35752, 35770, 28909, 24230, 23621, 39640, 19981, 19979, 12290]
         else timeline_text)"

text \<open>The fallback chain on the topic alone; \<open>topic_lower\<close> is never read.\<close>

definition event_timeline_from_topic :: "ustring \<Rightarrow> ustring" where
  "event_timeline_from_topic topic =
     (if any_in [[20215::nat, 26684], [36827::nat, 20215], [25104::nat, 26412], [21806::nat, 20215], [20803::nat], [32701::nat, 32466, 26381], [21830::nat, 21697]] topic
      then ([39::nat] @ topic @ [39::nat, 24341, 21457, 28909, 35758, 12290, 32593, 21451, 28909, 35758, 23450, 20215, 21512, 29702, 24615, 65292, 30456, 20851, 21697, 29260, 26041, 22791, 21463, 20851, 27880, 12290, 30446, 21069, 35805, 39064, 25345, 32493, 21457, 37237, 65292, 25104, 20026, 28040, 36153, 28909, 28857, 12290])
      else if any_in [[28779::nat, 28798], [20107::nat, 25925], [26197::nat, 20498], [21435::nat, 19990], [20260::nat, 20129], [24847::nat, 22806], [38889::nat, 22269, 28779, 28798]] topic
      then ([39::nat] @ topic @ [39::nat, 20107, 20214, 20196, 20154, 25578, 24515, 12290, 30456, 20851, 37096, 38376, 24050, 20171, 20837, 22788, 29702, 65292, 20844, 20247, 25345, 32493, 20851, 27880, 20107, 20214, 36827, 23637, 12290, 20855, 20307, 24773, 20917, 26377, 24453, 36827, 19968, 27493, 36890, 25253, 12290])
      else if any_in [[21457::nat, 24067], [26032::nat, 21697], [19978::nat, 24066], [25512::nat, 20986], [20142::nat, 30456], [21457::nat, 24067, 20250]] topic
      then ([39::nat] @ topic @ [39::nat, 24341, 21457, 24191, 27867, 20851, 27880, 12290, 20135, 21697, 20142, 28857, 25104, 20026, 35752, 35770, 28966, 28857, 65292, 24066, 22330, 21453, 21709, 28909, 28872, 12290, 28040, 36153, 32773, 26399, 24453, 20102, 35299, 26356, 22810, 35814, 24773, 12290])
      else if any_in [[36947::nat, 27465], [22238::nat, 24212], [28548::nat, 28165], [22768::nat, 26126], [35299::nat, 37322], [31163::nat, 32844]] topic
      then ([39::nat] @ topic @ [39::nat, 20107, 20214, 25345, 32493, 21457, 37237, 12290, 28041, 20107, 26041, 21457, 24067, 22768, 26126, 65292, 20844, 20247, 23545, 27492, 21453, 24212, 19981, 19968, 12290, 20107, 20214, 21518, 32493, 21457, 23637, 20173, 38656, 20851, 27880, 12290])
      else if any_in [[28216::nat, 25103], [24320::nat, 22823], [29579::nat, 32773], [21407::nat, 31070], [31532::nat, 20116, 20154, 26684], [19990::nat, 30028, 20043, 22806], [33521::nat, 38596, 32852, 30431]] topic
      then ([39::nat] @ topic @ [39::nat, 22312, 28216, 25103, 22280, 24341, 21457, 28909, 35758, 12290, 29609, 23478, 35752, 35770, 28216, 25103, 29609, 27861, 21644, 26356, 26032, 20869, 23481, 65292, 31038, 21306, 27963, 36291, 24230, 26174, 33879, 25552, 21319, 12290])
      else if any_in [[26126::nat, 26143], [28436::nat, 21592], [33402::nat, 20154], [27468::nat, 25163], [32508::nat, 33402], [34203::nat, 20043, 35878], [34081::nat, 24464, 22372], [36711::nat, 25103], [26377::nat, 27468]] topic
      then ([39::nat] @ topic @ [39::nat, 25104, 20026, 23089, 20048, 28909, 28857, 12290, 31881, 19997, 21644, 32593, 21451, 28909, 28872, 35752, 35770, 30456, 20851, 35805, 39064, 65292, 31038, 20132, 23186, 20307, 28909, 24230, 25345, 32493, 25856, 21319, 12290])
      else if any_in [[26032::nat, 24180], [26149::nat, 33410], [21452::nat, 49, 49], [54::nat, 49, 56], [27963::nat, 21160], [22823::nat, 32043, 22823, 32418]] topic
      then ([39::nat] @ topic @ [39::nat, 30456, 20851, 27963, 21160, 24320, 21551, 12290, 21508, 22823, 24179, 21488, 25512, 20986, 20248, 24800, 65292, 28040, 36153, 32773, 31215, 26497, 21442, 19982, 65292, 38144, 21806, 39069, 23649, 21019, 26032, 39640, 12290])
      else if any_in [[27773::nat, 36710], [38271::nat, 22478], [29305::nat, 26031, 25289], [27604::nat, 20122, 36842], [21457::nat, 24067, 20250]] topic
      then ([39::nat] @ topic @ [39::nat, 24341, 21457, 36710, 22280, 20851, 27880, 12290, 28040, 36153, 32773, 20851, 27880, 20135, 21697, 24615, 33021, 21644, 20215, 26684, 65292, 26399, 24453, 26356, 22810, 20135, 21697, 32454, 33410, 25259, 38706, 12290])
      else ([39::nat] @ topic @ [39::nat, 35805, 39064, 24341, 21457, 24191, 27867, 35752, 35770, 12290, 32593, 21451, 20174, 19981, 21516, 35282, 24230, 34920, 36798, 35266, 28857, 65292, 30456, 20851, 20869, 23481, 22312, 31038, 20132, 24179, 21488, 24555, 36895, 20256, 25773, 65292, 28909, 24230, 25345, 32493, 36208, 39640, 12290]))"

text \<open>
  The context branch runs when at least two titles were kept (\<open>key_info[0]\<close>,
  \<open>key_info[1]\<close> and \<open>key_info[-1]\<close> exist then); otherwise, and also when there are
  no search results, the fallback chain runs.
\<close>

definition generate_event_timeline :: "ustring \<Rightarrow> search_result list \<Rightarrow> ustring" where
  "generate_event_timeline topic search_results =
     (case event_key_info (take 5 search_results) of
        k0 # k1 # ks \<Rightarrow>
          event_timeline_from_context topic (k0 # k1 # ks) k0 k1 (last (k0 # k1 # ks))
      | _ \<Rightarrow> event_timeline_from_topic topic)"

section \<open>Rule engine (weibo\_hot\_analyzer.py, mock\_ai\_analysis)\<close>

text \<open>
  The dictionary the rule engine returns has a fixed set of keys: it is a record. The
  second rule engine, in weibo\_analyzer\_v2.py, returns the same keys without
  \<open>event_timeline\<close>, so that field is optional: \<open>None\<close> is an absent key.
\<close>

record idea =
  name :: ustring
  event_timeline :: "ustring option"
  core_features :: "ustring list"
  market_pain_points :: "ustring list"
  target_users :: ustring
  scores :: scoreset
  innovation_points :: "ustring list"
  market_potential :: potential_info

text \<open>
  No step of \<open>mock_ai_analysis\<close> can raise on a string topic and a list of search
  results with string titles: the steps are slices, \<open>in\<close>, \<open>len\<close>, \<open>dict.get\<close> with a
  default and concatenations. The model therefore has no error result. Only
  \<open>calculate_scores\<close> touches the generator.
\<close>

definition mock_ai_analysis :: "'s runtime \<Rightarrow> ustring \<Rightarrow> search_result list \<Rightarrow> 's \<Rightarrow> idea \<times> 's" where
  "mock_ai_analysis rt topic search_results s0 =
     (let topic_analysis = analyze_topic_keywords topic;
          topic_type = atype topic_analysis;
          theme_v = theme topic_analysis;
          (scores_v, s1) = calculate_scores rt topic s0
      in (\<lparr>name = generate_product_name topic topic_type theme_v,
           event_timeline = Some (generate_event_timeline topic search_results),
           core_features = generate_core_features_by_topic topic topic_type theme_v,
           market_pain_points = generate_pain_points_by_topic topic topic_type theme_v,
           target_users = generate_target_users_by_topic topic topic_type,
           scores = scores_v,
           innovation_points = generate_innovation_points_by_topic topic theme_v,
           market_potential = generate_market_potential_by_topic topic theme_v\<rparr>, s1))"

text \<open>
  \<open>analyze_product_idea\<close> of weibo\_hot\_analyzer.py builds a context string that it
  never uses and returns the rule engine's result.
\<close>

definition analyze_product_idea :: "'s runtime \<Rightarrow> ustring \<Rightarrow> search_result list \<Rightarrow> 's \<Rightarrow> idea \<times> 's" where
  "analyze_product_idea rt topic search_results s0 = mock_ai_analysis rt topic search_results s0"

section \<open>Regular expressions and \<open>str.replace\<close>\<close>

text \<open>
  In a Python 3 \<open>str\<close> pattern, \<open>\d\<close> matches every character of the Unicode category
  Nd (decimal digit), not only ASCII digits: the ranges are those of Unicode 14.
\<close>

definition digit_ranges :: "(nat \<times> nat) list" where
  "digit_ranges =
     [(48, 57), (1632, 1641), (1776, 1785), (1984, 1993), (2406, 2415), (2534, 2543),
      (2662, 2671), (2790, 2799), (2918, 2927), (3046, 3055), (3174, 3183), (3302, 3311),
      (3430, 3439), (3558, 3567), (3664, 3673), (3792, 3801), (3872, 3881), (4160, 4169),
      (4240, 4249), (6112, 6121), (6160, 6169), (6470, 6479), (6608, 6617), (6784, 6793),
      (6800, 6809), (6992, 7001), (7088, 7097), (7232, 7241), (7248, 7257), (42528, 42537),
      (43216, 43225), (43264, 43273), (43472, 43481), (43504, 43513), (43600, 43609),
      (44016, 44025), (65296, 65305), (66720, 66729), (68912, 68921), (69734, 69743),
      (69872, 69881), (69942, 69951), (70096, 70105), (70384, 70393), (70736, 70745),
      (70864, 70873), (71248, 71257), (71360, 71369), (71472, 71481), (71904, 71913),
      (72016, 72025), (72784, 72793), (73040, 73049), (73120, 73129), (92768, 92777),
      (92864, 92873), (93008, 93017), (120782, 120831), (123200, 123209), (123632, 123641),
      (125264, 125273), (130032, 130041)]"

definition is_digit :: "nat \<Rightarrow> bool" where
  "is_digit c = list_ex (\<lambda>(lo, hi). lo \<le> c \<and> c \<le> hi) digit_ranges"

text \<open>
  \<open>re.findall(r'\d+', s)\<close>: the maximal runs of digits, from left to right.
\<close>

function findall_digits :: "ustring \<Rightarrow> ustring list" where
  "findall_digits [] = []"
| "findall_digits (c # cs) =
     (if is_digit c
      then (c # takeWhile is_digit cs) # findall_digits (dropWhile is_digit cs)
      else findall_digits cs)"
  by pat_completeness auto
termination
  by (relation "measure length") (auto simp: le_imp_less_Suc length_dropWhile_le)

text \<open>
  One match of \<open>\d+\.?\d*\<close> at the start of a string whose first character \<open>c\<close> is a
  digit: the run of digits, then a full stop (46) if one follows, then the digits after
  it. Every quantifier is greedy and none has to give anything back. The result is the
  match and the rest of the string.
\<close>

definition match_decimal :: "nat \<Rightarrow> ustring \<Rightarrow> ustring \<times> ustring" where
  "match_decimal c cs =
     (let int_part = c # takeWhile is_digit cs;
          after_int = dropWhile is_digit cs
      in case after_int of
           [] \<Rightarrow> (int_part, [])
         | d # after_dot \<Rightarrow>
             if d = 46
             then (int_part @ [46] @ takeWhile is_digit after_dot, dropWhile is_digit after_dot)
             else (int_part, after_int))"

lemma match_decimal_rest:
  "length (snd (case r of [] \<Rightarrow> (a, [])
                | d # after_dot \<Rightarrow> if d = 46 then (b after_dot, dropWhile P after_dot) else (a, r)))
   \<le> length r"
  by (cases r) (auto simp: le_SucI length_dropWhile_le)

lemma match_decimal_shorter: "length (snd (match_decimal c cs)) \<le> length cs"
proof -
  have "length (snd (match_decimal c cs)) \<le> length (dropWhile is_digit cs)"
    unfolding match_decimal_def Let_def by (rule match_decimal_rest)
  also have "\<dots> \<le> length cs"
    by (rule length_dropWhile_le)
  finally show ?thesis .
qed

text \<open>\<open>re.findall(r'\d+\.?\d*', s)\<close>: the matches from left to right, without overlap.\<close>

function findall_decimal :: "ustring \<Rightarrow> ustring list" where
  "findall_decimal [] = []"
| "findall_decimal (c # cs) =
     (if is_digit c
      then fst (match_decimal c cs) # findall_decimal (snd (match_decimal c cs))
      else findall_decimal cs)"
  by pat_completeness auto
termination
  by (relation "measure length") (auto simp: le_imp_less_Suc match_decimal_shorter)

text \<open>
  \<open>re.search\<close> with a pattern that is a group of literal alternatives: the leftmost
  position at which an alternative matches, and there the first alternative that does;
  the result is \<open>group(1)\<close>, or \<open>None\<close> when there is no match.
\<close>

fun re_search_alternatives :: "ustring list \<Rightarrow> ustring \<Rightarrow> ustring option" where
  "re_search_alternatives alts [] = find (\<lambda>a. prefix a []) alts"
| "re_search_alternatives alts (c # cs) =
     (case find (\<lambda>a. prefix a (c # cs)) alts of
        Some a \<Rightarrow> Some a
      | None \<Rightarrow> re_search_alternatives alts cs)"

text \<open>
  \<open>s.replace(old, new)\<close>: the occurrences of \<open>old\<close> from left to right, without overlap.
  With an empty \<open>old\<close> Python inserts \<open>new\<close> before every character and at the end.
\<close>

function str_replace :: "ustring \<Rightarrow> ustring \<Rightarrow> ustring \<Rightarrow> ustring" where
  "str_replace [] new s = new @ concat (map (\<lambda>c. c # new) s)"
| "str_replace (x # xs) new [] = []"
| "str_replace (x # xs) new (c # cs) =
     (if prefix (x # xs) (c # cs)
      then new @ str_replace (x # xs) new (drop (length xs) cs)
      else c # str_replace (x # xs) new cs)"
  by pat_completeness auto
termination
  by (relation "measure (\<lambda>(old, new, s). length s)") auto

section \<open>Three-stage timeline (weibo\_hot\_analyzer.py, generate\_three\_stage\_timeline)\<close>

record timeline =
  cause :: ustring
  develop :: ustring
  impact :: ustring

text \<open>Every \<open>return\<close> of the function slices the three texts with \<open>[:100]\<close>.\<close>

definition capped :: "ustring \<Rightarrow> ustring \<Rightarrow> ustring \<Rightarrow> timeline" where
  "capped cause_text develop_text impact_text =
     \<lparr>cause = take 100 cause_text, develop = take 100 develop_text, impact = take 100 impact_text\<rparr>"

text \<open>
  The loop over \<open>search_results[:5]\<close>: a title longer than 10 is cut before the first
  separator and stripped, and kept when more than 8 and fewer than 60 characters remain.
\<close>

fun stage_key_info :: "search_result list \<Rightarrow> ustring list" where
  "stage_key_info [] = []"
| "stage_key_info (r # rs) =
     (if title r \<noteq> [] \<and> 10 < length (title r)
      then (let clean_title = py_strip (split_title (title r))
            in if 8 < length clean_title \<and> length clean_title < 60
               then clean_title # stage_key_info rs
               else stage_key_info rs)
      else stage_key_info rs)"

definition stages_from_context :: "ustring list \<Rightarrow> ustring \<Rightarrow> ustring \<Rightarrow> ustring \<Rightarrow> timeline" where
  "stages_from_context key_info k0 k1 kl =
     (let cause_text = ((take 40 k0) @ [25104::nat, 20026, 20851, 27880, 28966, 28857]);
          develop_info = (if 1 < length key_info then take 30 k1 else [30456::nat, 20851, 35805, 39064]);
          develop_text = ([32593::nat, 21451, 28909, 35758] @ develop_info);
          impact_info = (if 2 < length key_info then take 30 kl else [30456::nat, 20851, 35752, 35770]);
          impact_text = ([20107::nat, 20214, 25345, 32493, 21457, 37237, 65292] @ impact_info @ [28909::nat, 24230, 23621, 39640, 19981, 19979])
      in capped cause_text develop_text impact_text)"

text \<open>1. Prices and goods.\<close>

definition stages_pricing :: "ustring \<Rightarrow> timeline" where
  "stages_pricing topic =
     (let numbers = findall_decimal topic;
          entity = (case re_search_alternatives [[32982::nat, 19996, 26469], [20140::nat, 19996], [28120::nat, 23453], [22825::nat, 29483], [21830::nat, 21697]] topic of
                      Some e \<Rightarrow> e
                    | None \<Rightarrow> [21697::nat, 29260, 26041])
      in case numbers of
           n0 # ns \<Rightarrow>
             if str_contains [32701::nat, 32466, 26381] topic
             then capped (topic @ [26333::nat, 20809, 65292] @ entity @ [21830::nat, 21697, 23450, 20215, 24341, 21457, 28909, 35758])
                         ([32593::nat, 21451, 28909, 35758, 39] @ n0 @ [20803::nat, 39, 21806, 20215, 19982, 39] @ (case ns of n1 # ns' \<Rightarrow> n1 | [] \<Rightarrow> []) @ [20803::nat, 39, 36827, 20215, 30340, 20215, 24046])
                         (entity @ [22238::nat, 24212, 33286, 35770, 65292, 20844, 20247, 20851, 27880, 21830, 21697, 23450, 20215, 36879, 26126, 24230, 19982, 21830, 19994, 21033, 28070])
             else capped (topic @ [20215::nat, 26684, 20449, 24687, 26333, 20809, 65292, 24341, 21457, 28040, 36153, 32773, 35752, 35770])
                         ([32593::nat, 21451, 28909, 35758, 39] @ n0 @ [20803::nat, 39, 30340, 23450, 20215, 21512, 29702, 24615])
                         [28040::nat, 36153, 32773, 23545, 20215, 26684, 25935, 24863, 24230, 25552, 21319, 65292, 30456, 20851, 21697, 29260, 21463, 21040, 20851, 27880]
         | [] \<Rightarrow>
             capped (topic @ [21830::nat, 21697, 23450, 20215, 38382, 39064, 24341, 21457, 20851, 27880])
                    [32593::nat, 21451, 23545, 27604, 21508, 24179, 21488, 20215, 26684, 65292, 35752, 35770, 24615, 20215, 27604]
                    [28040::nat, 36153, 35266, 24565, 21463, 21040, 24433, 21709, 65292, 26356, 21152, 27880, 37325, 20215, 26684, 36879, 26126, 24230])"

text \<open>2. Entertainment.\<close>

definition stages_entertainment :: "ustring \<Rightarrow> timeline" where
  "stages_entertainment topic =
     (if str_contains [36711::nat, 25103] topic
      then capped ([26377::nat, 28436, 21592, 34987, 25351, 39] @ topic @ [39::nat, 65292, 34892, 19994, 28508, 35268, 21017, 24341, 21457, 35752, 35770])
                  [32593::nat, 21451, 28909, 35758, 28436, 21592, 32844, 19994, 25805, 23432, 21644, 34892, 19994, 35268, 33539]
                  [24433::nat, 35270, 34892, 19994, 32844, 19994, 36947, 24503, 21463, 21040, 20851, 27880, 65292, 28436, 21592, 31649, 29702, 35268, 33539, 34987, 35752, 35770]
      else if str_contains [36830::nat, 24320] topic \<and> str_contains [22330::nat] topic
      then (let numbers = findall_digits topic;
                num = (case numbers of n0 # ns \<Rightarrow> n0 | [] \<Rightarrow> [22810::nat])
            in capped (topic @ [28436::nat, 21809, 20250, 23448, 23459, 65292, 31881, 19997, 25250, 31080, 28909, 24773, 39640, 28072])
                      ([31881::nat, 19997, 35752, 35770] @ num @ [22330::nat, 28436, 20986, 22478, 24066, 21644, 38376, 31080, 20449, 24687])
                      [28436::nat, 20986, 24066, 22330, 22797, 33487, 65292, 27468, 25163, 24433, 21709, 21147, 33719, 24471, 20851, 27880])
      else capped (topic @ [25104::nat, 20026, 23089, 20048, 28909, 28857, 65292, 31881, 19997, 20851, 27880])
                  [32593::nat, 21451, 28909, 35758, 30456, 20851, 20316, 21697, 21644, 21160, 24577]
                  [33402::nat, 20154, 47, 20316, 21697, 28909, 24230, 25552, 21319, 65292, 30456, 20851, 35805, 39064, 25345, 32493, 21457, 37237])"

text \<open>3. Games.\<close>

definition stages_game :: "ustring \<Rightarrow> timeline" where
  "stages_game topic =
     (if str_contains [19990::nat, 30028, 20043, 22806] topic \<or> str_contains [31532::nat, 20116, 20154, 26684] topic
      then (let game_name = (if str_contains [19990::nat, 30028, 20043, 22806] topic then [19990::nat, 30028, 20043, 22806] else [31532::nat, 20116, 20154, 26684])
            in capped (game_name @ [28216::nat, 25103, 30456, 20851, 20869, 23481, 24341, 21457, 29609, 23478, 20851, 27880])
                      [29609::nat, 23478, 35752, 35770, 28216, 25103, 29609, 27861, 12289, 25915, 30053, 21644, 26356, 26032, 20869, 23481]
                      ([28216::nat, 25103, 31038, 21306, 27963, 36291, 24230, 25552, 21319, 65292] @ game_name @ [28909::nat, 24230, 25345, 32493, 36208, 39640]))
      else if str_contains [24320::nat, 22823] topic
      then capped ([28216::nat, 25103, 39] @ topic @ [39::nat, 25805, 20316, 25110, 20107, 20214, 24341, 21457, 28909, 35758])
                  [29609::nat, 23478, 20998, 20139, 28216, 25103, 32463, 39564, 21644, 25216, 24039]
                  [28216::nat, 25103, 35805, 39064, 20986, 22280, 65292, 24341, 21457, 26356, 24191, 27867, 35752, 35770]
      else capped (topic @ [28216::nat, 25103, 30456, 20851, 35805, 39064, 24341, 21457, 20851, 27880])
                  [29609::nat, 23478, 35752, 35770, 28216, 25103, 20869, 23481, 21644, 29609, 27861]
                  [28216::nat, 25103, 31038, 21306, 28909, 24230, 25552, 21319, 65292, 30456, 20851, 20135, 21697, 21463, 20851, 27880])"

text \<open>4. Technology and medicine.\<close>

definition stages_tech :: "ustring \<Rightarrow> timeline" where
  "stages_tech topic =
     (if str_contains [51::nat, 68, 25171, 21360] topic \<and> str_contains [22120::nat, 23448] topic
      then capped (topic @ [25216::nat, 26415, 31361, 30772, 24341, 21457, 20851, 27880])
                  [32593::nat, 21451, 28909, 35758, 21307, 30103, 31185, 25216, 36827, 23637, 21644, 26410, 26469, 24212, 29992]
                  [21307::nat, 30103, 31185, 25216, 21463, 21040, 20851, 27880, 65292, 20844, 20247, 23545, 29983, 29289, 25171, 21360, 25216, 26415, 35752, 35770, 22686, 22810]
      else if str_contains [21457::nat, 24067] topic \<or> str_contains [26032::nat, 21697] topic
      then capped (topic @ [30456::nat, 20851, 20135, 21697, 21457, 24067, 65292, 24341, 21457, 24066, 22330, 20851, 27880])
                  [29992::nat, 25143, 35752, 35770, 20135, 21697, 24615, 33021, 12289, 20215, 26684, 21644, 36141, 20080, 20449, 24687]
                  [30456::nat, 20851, 34892, 19994, 21463, 21040, 24433, 21709, 65292, 24066, 22330, 31454, 20105, 21152, 21095]
      else capped (topic @ [31185::nat, 25216, 36827, 23637, 24341, 21457, 20851, 27880])
                  [19987::nat, 19994, 20154, 22763, 21644, 29992, 25143, 35752, 35770, 30456, 20851, 25216, 26415]
                  [25216::nat, 26415, 21019, 26032, 21463, 21040, 20851, 27880, 65292, 34892, 19994, 21463, 21040, 24433, 21709])"

text \<open>5. Incidents and accidents.\<close>

definition stages_incident :: "ustring \<Rightarrow> timeline" where
  "stages_incident topic =
     (if str_contains [38889::nat, 22269] topic \<and> (str_contains [28779::nat, 28798] topic \<or> str_contains [20107::nat, 25925] topic)
      then (let numbers = findall_digits topic;
                death_num = (case numbers of n0 # ns \<Rightarrow> (n0 @ [20154::nat]) | [] \<Rightarrow> [22810::nat, 20154]);
                place_removed = str_replace [38889::nat, 22269] [] topic
            in capped ([38889::nat, 22269, 21457, 29983] @ place_removed @ [20107::nat, 25925, 65292, 24341, 21457, 20851, 27880])
                      ([20107::nat, 25925, 35814, 24773, 34987, 25253, 36947, 65292] @ death_num @ [20260::nat, 20129, 24341, 21457, 20851, 27880])
                      [30456::nat, 20851, 37096, 38376, 20171, 20837, 22788, 29702, 65292, 20844, 20247, 20851, 27880, 20107, 25925, 21407, 22240, 21644, 21518, 32493])
      else capped (topic @ [20107::nat, 20214, 21457, 29983, 65292, 24341, 21457, 20844, 20247, 20851, 27880])
                  [23186::nat, 20307, 25253, 36947, 20107, 20214, 36827, 23637, 65292, 32593, 21451, 25345, 32493, 20851, 27880]
                  [20107::nat, 20214, 24433, 21709, 25193, 25955, 65292, 30456, 20851, 35752, 35770, 25345, 32493, 21457, 37237])"

text \<open>6. Cars, 7. festivals, and the default on the topic alone.\<close>

definition stages_car :: "ustring \<Rightarrow> timeline" where
  "stages_car topic =
     capped (topic @ [30456::nat, 20851, 35805, 39064, 24341, 21457, 36710, 22280, 20851, 27880])
            [28040::nat, 36153, 32773, 35752, 35770, 20135, 21697, 24615, 33021, 12289, 20215, 26684, 21644, 37197, 32622]
            [27773::nat, 36710, 24066, 22330, 20851, 27880, 24230, 25552, 21319, 65292, 30456, 20851, 21697, 29260, 21463, 20851, 27880]"

definition stages_festival :: "ustring \<Rightarrow> timeline" where
  "stages_festival topic =
     capped (topic @ [30456::nat, 20851, 27963, 21160, 24320, 21551, 65292, 24341, 21457, 20851, 27880])
            [21508::nat, 22823, 24179, 21488, 25512, 20986, 27963, 21160, 65292, 28040, 36153, 32773, 21442, 19982, 35752, 35770]
            [28040::nat, 36153, 28909, 24230, 25552, 21319, 65292, 30456, 20851, 35805, 39064, 25345, 32493, 21457, 37237]"

definition stages_default :: "ustring \<Rightarrow> timeline" where
  "stages_default topic =
     (if length topic \<le> 20
      then capped (topic @ [25104::nat, 20026, 28909, 38376, 35805, 39064])
                  ([32593::nat, 21451, 20174, 19981, 21516, 35282, 24230, 35752, 35770] @ topic)
                  (topic @ [30456::nat, 20851, 35752, 35770, 28909, 24230, 25345, 32493, 65292, 24433, 21709, 25193, 22823])
      else (let key_part = take 20 topic
            in capped (key_part @ [46::nat, 46, 46, 24341, 21457, 20851, 27880])
                      ([32593::nat, 21451, 28909, 35758] @ (take 15 topic) @ [46::nat, 46, 46, 30456, 20851, 20869, 23481])
                      [35805::nat, 39064, 25345, 32493, 21457, 37237, 65292, 30456, 20851, 35752, 35770, 28909, 24230, 36208, 39640]))"

definition stages_from_topic :: "ustring \<Rightarrow> timeline" where
  "stages_from_topic topic =
     (if any_in [[32982::nat, 19996, 26469], [20215::nat, 26684], [36827::nat, 20215], [25104::nat, 26412], [32701::nat, 32466, 26381], [20803::nat]] topic
      then stages_pricing topic
      else if any_in [[36711::nat, 25103], [34203::nat, 20043, 35878], [34081::nat, 24464, 22372], [36830::nat, 24320], [22330::nat], [26377::nat, 27468]] topic
      then stages_entertainment topic
      else if any_in [[19990::nat, 30028, 20043, 22806], [31532::nat, 20116, 20154, 26684], [28216::nat, 25103], [24320::nat, 22823], [29579::nat, 32773], [21407::nat, 31070]] topic
      then stages_game topic
      else if any_in [[51::nat, 68, 25171, 21360], [22120::nat, 23448], [65::nat, 73], [33455::nat, 29255], [21457::nat, 24067], [26032::nat, 21697]] topic
      then stages_tech topic
      else if any_in [[28779::nat, 28798], [20107::nat, 25925], [26197::nat, 20498], [20260::nat, 20129], [38889::nat, 22269]] topic
      then stages_incident topic
      else if any_in [[27773::nat, 36710], [38271::nat, 22478], [29305::nat, 26031, 25289], [27604::nat, 20122, 36842], [21457::nat, 24067, 20250]] topic
      then stages_car topic
      else if any_in [[26032::nat, 24180], [26149::nat, 33410], [21452::nat, 49, 49], [54::nat, 49, 56], [22823::nat, 32043, 22823, 32418]] topic
      then stages_festival topic
      else stages_default topic)"

text \<open>
  With at least two kept titles the timeline is built from them; otherwise, and with no
  search results, from the topic.
\<close>

definition generate_three_stage_timeline :: "ustring \<Rightarrow> search_result list \<Rightarrow> timeline" where
  "generate_three_stage_timeline topic search_results =
     (case stage_key_info (take 5 search_results) of
        k0 # k1 # ks \<Rightarrow> stages_from_context (k0 # k1 # ks) k0 k1 (last (k0 # k1 # ks))
      | _ \<Rightarrow> stages_from_topic topic)"

section \<open>Report data (weibo\_hot\_analyzer.py, generate\_html\_report)\<close>

text \<open>
  One entry of \<open>hot_topics_with_analysis\<close>. The fields carry the prefix \<open>td_\<close> (the
  source's loop variable is \<open>topic_data\<close>) because \<open>topic\<close>, \<open>analysis\<close> and
  \<open>search_results\<close> are variable names throughout. The type of the analysis is a
  parameter: the rule engine's record here, the result of the LLM wrapper in
  weibo\_analyzer\_v2.py.
\<close>

record 'a topic_data =
  td_topic :: ustring
  td_rank :: nat
  td_hot_score :: int
  td_search_results :: "search_result list"
  td_analysis :: 'a

text \<open>
  \<open>sorted(xs, key=f, reverse=True)\<close>. Python's sort is stable, and with
  \<open>reverse=True\<close> it stays stable: CPython reverses the list, sorts it ascending and
  reverses the result, so that elements with equal keys keep their original order. The
  result of a stable sort is determined by the keys, so the insertion sort \<open>sort_key\<close>
  stands for it.
\<close>

definition sorted_reverse :: "('a \<Rightarrow> int) \<Rightarrow> 'a list \<Rightarrow> 'a list" where
  "sorted_reverse f xs = rev (sort_key f (rev xs))"

text \<open>
  The values that the HTML template of a topic card interpolates. The features are
  \<open>'; '.join(analysis['core_features'][:3])\<close>.
\<close>

record card =
  card_topic :: ustring
  card_rank :: nat
  card_hot_score :: int
  card_total :: int
  card_interest :: int
  card_utility :: int
  card_timeline :: timeline
  card_name :: ustring
  card_features :: ustring
  card_target_users :: ustring

text \<open>
  The dictionary that \<open>mock_ai_analysis\<close> builds has no key \<open>search_results\<close> (the main
  loop stores the search results beside the analysis, in the entry), so
  \<open>analysis.get('search_results', [])\<close> is the default, the empty list.
\<close>

definition analysis_get_search_results :: "idea \<Rightarrow> search_result list" where
  "analysis_get_search_results a = []"

definition topic_card :: "idea topic_data \<Rightarrow> card" where
  "topic_card topic_data =
     (let topic = td_topic topic_data;
          analysis = td_analysis topic_data;
          scores_v = scores analysis;
          timeline_v = generate_three_stage_timeline topic (analysis_get_search_results analysis)
      in \<lparr>card_topic = topic,
          card_rank = td_rank topic_data,
          card_hot_score = td_hot_score topic_data,
          card_total = total scores_v,
          card_interest = interest_score scores_v,
          card_utility = utility_score scores_v,
          card_timeline = timeline_v,
          card_name = name analysis,
          card_features = join [59::nat, 32] (take 3 (core_features analysis)),
          card_target_users = target_users analysis\<rparr>)"

text \<open>
  What the report shows: the entries sorted by total, the three counts of the header and
  one card per sorted entry. The file name (date and next free number in the output
  directory) and the fixed HTML and CSS around the values are not modelled.
\<close>

record report =
  sorted_topics :: "idea topic_data list"
  excellent :: nat
  good :: nat
  average :: nat
  cards :: "card list"

definition generate_html_report :: "idea topic_data list \<Rightarrow> report" where
  "generate_html_report hot_topics_with_analysis =
     (let sorted_v = sorted_reverse (\<lambda>x. total (scores (td_analysis x))) hot_topics_with_analysis
      in \<lparr>sorted_topics = sorted_v,
          excellent = length (filter (\<lambda>t. 80 \<le> total (scores (td_analysis t))) sorted_v),
          good = length (filter (\<lambda>t. 60 \<le> total (scores (td_analysis t))
                                       \<and> total (scores (td_analysis t)) < 80) sorted_v),
          average = length (filter (\<lambda>t. total (scores (td_analysis t)) < 60) sorted_v),
          cards = map topic_card sorted_v\<rparr>)"

section \<open>Main loop (weibo\_hot\_analyzer.py, main)\<close>

text \<open>
  An item of the hot list is a dictionary of the external service; the loop reads the
  topic under the keys \<open>hotword\<close>, \<open>hotWord\<close> and \<open>word\<close>, in that order of preference,
  and the heat under \<open>hotScore\<close>. An absent key is \<open>None\<close>.
\<close>

record hot_item =
  hotword :: "ustring option"
  hotWord :: "ustring option"
  word :: "ustring option"
  hotScore :: "int option"

definition hot_topic :: "hot_item \<Rightarrow> ustring" where
  "hot_topic hot =
     (case hotword hot of
        Some t \<Rightarrow> t
      | None \<Rightarrow> (case hotWord hot of
                   Some t \<Rightarrow> t
                 | None \<Rightarrow> (case word hot of Some t \<Rightarrow> t | None \<Rightarrow> [])))"

text \<open>
  The loop \<open>for i, hot in enumerate(hot_list, 1)\<close>. The web search is an external
  collaborator and a parameter: it returns a list of results and never raises (it catches
  every exception and returns the empty list). \<open>enable_web_search\<close> is the flag of the
  configuration.
\<close>

fun analyze_hot_list ::
  "'s runtime \<Rightarrow> (ustring \<Rightarrow> search_result list) \<Rightarrow> bool \<Rightarrow> nat \<Rightarrow> hot_item list \<Rightarrow> 's
   \<Rightarrow> idea topic_data list \<times> 's" where
  "analyze_hot_list rt web_search_topic enable_web_search i [] s0 = ([], s0)"
| "analyze_hot_list rt web_search_topic enable_web_search i (hot # hots) s0 =
     (let topic = hot_topic hot;
          search_results = (if enable_web_search then web_search_topic topic else []);
          (analysis, s1) = analyze_product_idea rt topic search_results s0;
          entry = \<lparr>td_topic = topic,
                   td_rank = i,
                   td_hot_score = (case hotScore hot of Some h \<Rightarrow> h | None \<Rightarrow> 0),
                   td_search_results = search_results,
                   td_analysis = analysis\<rparr>;
          (entries, s2) = analyze_hot_list rt web_search_topic enable_web_search (Suc i) hots s1
      in (entry # entries, s2))"

text \<open>
  \<open>main\<close> returns \<open>None\<close> when the hot list is empty and writes the report otherwise.
\<close>

definition main :: "'s runtime \<Rightarrow> (ustring \<Rightarrow> search_result list) \<Rightarrow> bool \<Rightarrow> hot_item list \<Rightarrow> 's
                   \<Rightarrow> report option" where
  "main rt web_search_topic enable_web_search hot_list s0 =
     (if hot_list = [] then None
      else Some (generate_html_report
                   (fst (analyze_hot_list rt web_search_topic enable_web_search 1 hot_list s0))))"

text \<open>A hot-list item as the service sends it, with the topic under \<open>hotWord\<close>.\<close>

definition demo_hot :: "ustring \<Rightarrow> hot_item" where
  "demo_hot t = \<lparr>hotword = None, hotWord = Some t, word = None, hotScore = None\<rparr>"

text \<open>
  A web search to evaluate the main loop on: two results for every topic, with titles
  made from the topic.
\<close>

definition demo_search :: "ustring \<Rightarrow> search_result list" where
  "demo_search topic =
     [\<lparr>title = topic @ [32::nat, 102, 105, 114, 115, 116, 32, 114, 101, 112, 111, 114, 116, 32, 111, 110, 32, 116, 104, 101, 32, 101, 118, 101, 110, 116], url = []\<rparr>,
      \<lparr>title = topic @ [32::nat, 111, 102, 102, 105, 99, 105, 97, 108, 32, 114, 101, 112, 108, 121, 32, 116, 111, 32, 116, 104, 101, 32, 101, 118, 101, 110, 116], url = []\<rparr>]"

section \<open>Rule engine of weibo\_analyzer\_v2.py (\_rule\_based\_analysis)\<close>

text \<open>
  The dictionary literal is evaluated in order, so the six draws happen in the order of
  the keys. The three derived scores are the literal 0. The search results are not used.
\<close>

definition rule_based_analysis :: "'s runtime \<Rightarrow> ustring \<Rightarrow> search_result list \<Rightarrow> 's \<Rightarrow> idea \<times> 's" where
  "rule_based_analysis rt topic search_results s0 =
     (let s1 = seed rt (hash_str rt topic);
          (innovation_v, s2) = randint rt s1 15 30;
          (pain_point_v, s3) = randint rt s2 15 25;
          (potential_v, s4) = randint rt s3 10 15;
          (social_v, s5) = randint rt s4 5 10;
          (practicality_v, s6) = randint rt s5 5 10;
          (feasibility_v, s7) = randint rt s6 5 10
      in (\<lparr>name = ([12300::nat] @ (take 8 topic) @ [12301::nat, 26234, 33021, 21161, 25163]),
           event_timeline = None,
           core_features =
             [([23454::nat, 26102, 36861, 36394, 39] @ topic @ [39::nat, 30456, 20851, 21160, 24577]),
              [65::nat, 73, 26234, 33021, 20998, 26512, 19982, 25512, 33616],
              [20010::nat, 24615, 21270, 20869, 23481, 23450, 21046],
              [31038::nat, 20132, 20114, 21160, 20998, 20139],
              [25968::nat, 25454, 21487, 35270, 21270, 23637, 31034]],
           market_pain_points =
             [([20851::nat, 20110, 39] @ topic @ [39::nat, 30340, 20449, 24687, 20998, 25955]),
              [32570::nat, 20047, 19987, 19994, 28145, 24230, 20998, 26512],
              [20010::nat, 24615, 21270, 25512, 33616, 19981, 36275],
              [20114::nat, 21160, 20307, 39564, 24046],
              [25968::nat, 25454, 19981, 30452, 35266]],
           target_users = ([20851::nat, 27880, 39] @ topic @ [39::nat, 30340, 29992, 25143, 32676, 20307]),
           scores =
             \<lparr>total = 0,
              interest_score = 0,
              utility_score = 0,
              innovation = innovation_v,
              pain_point = pain_point_v,
              potential = potential_v,
              social = social_v,
              practicality = practicality_v,
              feasibility = feasibility_v\<rparr>,
           innovation_points =
             [([38024::nat, 23545, 39] @ topic @ [39::nat, 30340, 19987, 19994, 20998, 26512]),
              [65::nat, 73, 26234, 33021, 25512, 33616],
              [22810::nat, 32500, 24230, 25968, 25454, 34701, 21512],
              [23454::nat, 26102, 36861, 36394],
              [31038::nat, 20132, 21270, 21327, 20316]],
           market_potential =
             \<lparr>market_size = ([22522::nat, 20110, 39] @ topic @ [39::nat, 30340, 22402, 30452, 24066, 22330]),
              growth_stage = [25104::nat, 38271, 26399],
              competitive_advantage = [19987::nat, 19994, 22721, 22418],
              revenue_model = [20250::nat, 21592, 43, 22686, 20540, 26381, 21153]\<rparr>\<rparr>, s7))"

section \<open>LLM wrappers (weibo\_analyzer\_v2.py and weibo\_analyzer\_sdk.py)\<close>

text \<open>
  What \<open>json.loads\<close> returns. A Python dictionary is an association list read with
  \<open>map_of\<close> and written with \<open>AList.update\<close>. Numbers are integers: a reply whose
  numbers have a fraction or an exponent makes the sums floating-point sums, which this
  model does not cover (the prompt asks for integers).
\<close>

datatype json =
  JNull
| JBool bool
| JInt int
| JStr ustring
| JArr "json list"
| JObj "(ustring \<times> json) list"

text \<open>
  The wrapper returns either the dictionary of the rule engine or the parsed reply of
  the model with the totals added.
\<close>

datatype analysis =
  RuleDict idea
| ReplyDict "(ustring \<times> json) list"



text \<open>
  Inside the \<open>try\<close> block every exception is caught by \<open>except Exception\<close>, whatever
  its class, so the steps of the block are modelled in the option monad: \<open>None\<close> is
  "an exception was raised".

  \<open>a + b\<close> on values from JSON: integers add and Booleans count as 0 and 1, two strings
  or two lists concatenate, everything else raises \<open>TypeError\<close>.
\<close>

fun py_int :: "json \<Rightarrow> int option" where
  "py_int (JInt i) = Some i"
| "py_int (JBool b) = Some (if b then 1 else 0)"
| "py_int j = None"

fun py_add :: "json \<Rightarrow> json \<Rightarrow> json option" where
  "py_add (JStr x) (JStr y) = Some (JStr (x @ y))"
| "py_add (JArr x) (JArr y) = Some (JArr (x @ y))"
| "py_add a b =
     (case (py_int a, py_int b) of
        (Some x, Some y) \<Rightarrow> Some (JInt (x + y))
      | _ \<Rightarrow> None)"

text \<open>\<open>round(x, 1)\<close>: an integer is returned unchanged, a string or a list raises.\<close>

definition py_round1 :: "json \<Rightarrow> json option" where
  "py_round1 j = map_option JInt (py_int j)"

text \<open>
  The lines under "compute the total": the six reads and the sums in the order Python
  evaluates them, then the three writes into the \<open>scores\<close> dictionary.
\<close>

definition add_totals :: "(ustring \<times> json) list \<Rightarrow> (ustring \<times> json) list option" where
  "add_totals scores_d =
     do {
       a \<leftarrow> map_of scores_d [105::nat, 110, 110, 111, 118, 97, 116, 105, 111, 110];
       b \<leftarrow> map_of scores_d [112::nat, 97, 105, 110, 95, 112, 111, 105, 110, 116];
       ab \<leftarrow> py_add a b;
       c \<leftarrow> map_of scores_d [112::nat, 111, 116, 101, 110, 116, 105, 97, 108];
       abc \<leftarrow> py_add ab c;
       d \<leftarrow> map_of scores_d [115::nat, 111, 99, 105, 97, 108];
       interest \<leftarrow> py_add abc d;
       e \<leftarrow> map_of scores_d [112::nat, 114, 97, 99, 116, 105, 99, 97, 108, 105, 116, 121];
       f \<leftarrow> map_of scores_d [102::nat, 101, 97, 115, 105, 98, 105, 108, 105, 116, 121];
       utility \<leftarrow> py_add e f;
       both \<leftarrow> py_add interest utility;
       total_v \<leftarrow> py_round1 both;
       Some (AList.update [117::nat, 116, 105, 108, 105, 116, 121, 95, 115, 99, 111, 114, 101] utility
              (AList.update [105::nat, 110, 116, 101, 114, 101, 115, 116, 95, 115, 99, 111, 114, 101] interest
                (AList.update [116::nat, 111, 116, 97, 108] total_v scores_d)))
     }"










section \<open>Report data of weibo\_analyzer\_v2.py (generate\_html\_report)\<close>

text \<open>
  The sort key \<open>x['analysis']['scores']['total']\<close> on a result of the wrapper. On the
  rule engine's dictionary it is the field. On a parsed reply the two lookups can raise;
  a total that is not an integer is never written by the wrapper and is treated as a
  failure too.
\<close>

definition analysis_total :: "analysis \<Rightarrow> int option" where
  "analysis_total a =
     (case a of
        RuleDict i \<Rightarrow> Some (total (scores i))
      | ReplyDict analysis_d \<Rightarrow>
          (case map_of analysis_d [115::nat, 99, 111, 114, 101, 115] of
             Some (JObj scores_d) \<Rightarrow> Option.bind (map_of scores_d [116::nat, 111, 116, 97, 108]) py_int
           | _ \<Rightarrow> None))"

text \<open>
  The sort of the report: the keys are computed first (the first failing entry raises),
  then the entries are sorted by them.
\<close>

definition keyed_topics :: "analysis topic_data list \<Rightarrow> (int \<times> analysis topic_data) list option" where
  "keyed_topics hot_topics_with_analysis =
     those (map (\<lambda>x. map_option (\<lambda>k. (k, x)) (analysis_total (td_analysis x)))
                hot_topics_with_analysis)"

definition sorted_topics_v2 :: "analysis topic_data list \<Rightarrow> analysis topic_data list option" where
  "sorted_topics_v2 hot_topics_with_analysis =
     map_option (\<lambda>kxs. map snd (sorted_reverse fst kxs)) (keyed_topics hot_topics_with_analysis)"

text \<open>
  An entry of the report of weibo\_analyzer\_v2.py whose analysis is a parsed reply that
  holds only the total.
\<close>

definition demo_reply_entry :: "ustring \<Rightarrow> int \<Rightarrow> analysis topic_data" where
  "demo_reply_entry t n =
     \<lparr>td_topic = t, td_rank = 1, td_hot_score = 0, td_search_results = [],
      td_analysis = ReplyDict [([115::nat, 99, 111, 114, 101, 115], JObj [([116::nat, 111, 116, 97, 108], JInt n)])]\<rparr>"

definition demo_key :: "analysis topic_data \<Rightarrow> int" where
  "demo_key x = (case analysis_total (td_analysis x) of Some n \<Rightarrow> n | None \<Rightarrow> 0)"


section \<open>Properties\<close>

lemma exact_pass_distinct:
  "distinct (concat (map snd ps)) \<Longrightarrow> (nm, kws) \<in> set ps \<Longrightarrow> topic \<in> set kws
   \<Longrightarrow> exact_pass ps topic = Some nm"
proof (induction ps)
  case Nil
  then show ?case by simp
next
  case (Cons p ps)
  obtain n ks where p: "p = (n, ks)" by (cases p)
  show ?case
  proof (cases "topic \<in> set ks")
    case True
    have "(nm, kws) = (n, ks)"
    proof (rule ccontr)
      assume "(nm, kws) \<noteq> (n, ks)"
      with Cons.prems(2) p have "(nm, kws) \<in> set ps" by auto
      with Cons.prems(3) have "topic \<in> set (concat (map snd ps))" by force
      with True Cons.prems(1) p show False by auto
    qed
    with True p show ?thesis by simp
  next
    case False
    with Cons.prems p have "(nm, kws) \<in> set ps" by auto
    moreover from Cons.prems(1) have "distinct (concat (map snd ps))" by simp
    ultimately have "exact_pass ps topic = Some nm" using Cons.IH Cons.prems(3) by blast
    with False p show ?thesis by simp
  qed
qed

lemma theme_keywords_distinct: "distinct (concat (map snd theme_patterns))"
  unfolding theme_patterns_def by simp

text \<open>
  C6. A topic that is verbatim one of the keywords of the table is classified into that
  keyword's theme, whatever other keywords occur in it: the exact-match loop runs first
  and returns.
\<close>

theorem exact_match_precedence:
  "(nm, kws) \<in> set theme_patterns \<Longrightarrow> topic \<in> set kws
   \<Longrightarrow> analyze_topic_keywords topic = \<lparr>atype = nm, theme = nm\<rparr>"
  using exact_pass_distinct [OF theme_keywords_distinct]
  by (simp add: analyze_topic_keywords_def)

text \<open>
  The topic "launch event" is a keyword of the theme cars; the keyword "launch" of the
  earlier theme technology is a substring of it, and the substring loop alone would
  answer technology.
\<close>

theorem exact_match_precedence_witness:
  "([27773::nat, 36710], [[27773::nat, 36710], [38271::nat, 22478], [29305::nat, 26031, 25289], [27604::nat, 20122, 36842], [21457::nat, 24067, 20250], [26032::nat, 36710]]) \<in> set theme_patterns
   \<and> [21457::nat, 24067, 20250] \<in> set [[27773::nat, 36710], [38271::nat, 22478], [29305::nat, 26031, 25289], [27604::nat, 20122, 36842], [21457::nat, 24067, 20250], [26032::nat, 36710]]
   \<and> str_contains [21457::nat, 24067] [21457::nat, 24067, 20250]
   \<and> substring_pass theme_patterns [21457::nat, 24067, 20250] = Some [31185::nat, 25216, 25968, 30721]
   \<and> analyze_topic_keywords [21457::nat, 24067, 20250] = \<lparr>atype = [27773::nat, 36710], theme = [27773::nat, 36710]\<rparr>"
proof -
  have a: "([27773::nat, 36710], [[27773::nat, 36710], [38271::nat, 22478], [29305::nat, 26031, 25289], [27604::nat, 20122, 36842], [21457::nat, 24067, 20250], [26032::nat, 36710]]) \<in> set theme_patterns"
    by (simp add: theme_patterns_def)
  have b: "[21457::nat, 24067, 20250] \<in> set [[27773::nat, 36710], [38271::nat, 22478], [29305::nat, 26031, 25289], [27604::nat, 20122, 36842], [21457::nat, 24067, 20250], [26032::nat, 36710]]"
    by simp
  have c: "str_contains [21457::nat, 24067] [21457::nat, 24067, 20250]"
    by simp
  have d: "substring_pass theme_patterns [21457::nat, 24067, 20250] = Some [31185::nat, 25216, 25968, 30721]"
    by (simp add: theme_patterns_def any_in_def)
  from a b c d exact_match_precedence [OF a b] show ?thesis by simp
qed


subsection \<open>The scorer\<close>

lemma randint_bounds:
  "randint_in_range rt \<Longrightarrow> a \<le> b
   \<Longrightarrow> a \<le> fst (randint rt s a b) \<and> fst (randint rt s a b) \<le> b"
  by (simp add: randint_in_range_def)

lemma demo_runtime_in_range: "randint_in_range (demo_runtime salt)"
proof -
  have "a \<le> a + s mod (b - a + 1) \<and> a + s mod (b - a + 1) \<le> b" if "a \<le> b" for a b s :: int
  proof -
    from that have pos: "0 < b - a + 1" by simp
    have "0 \<le> s mod (b - a + 1)" using pos by (rule pos_mod_sign)
    moreover have "s mod (b - a + 1) < b - a + 1" using pos by (rule pos_mod_bound)
    ultimately show ?thesis by simp
  qed
  then show ?thesis by (simp add: randint_in_range_def demo_runtime_def)
qed

text \<open>The scores of the scorer, field by field, as draws from the seeded generator.\<close>

lemma calculate_scores_fields:
  fixes rt :: "'s runtime"
  defines "d1 s \<equiv> randint rt s 15 30" and "d2 s \<equiv> randint rt s 15 25"
      and "d3 s \<equiv> randint rt s 10 15" and "d4 s \<equiv> randint rt s 5 10"
  shows "\<exists>s1 s2 s3 s4 s5 s6.
           innovation (fst (calculate_scores rt topic s0)) = fst (d1 s1)
         \<and> pain_point (fst (calculate_scores rt topic s0)) = fst (d2 s2)
         \<and> potential (fst (calculate_scores rt topic s0)) = fst (d3 s3)
         \<and> social (fst (calculate_scores rt topic s0)) = fst (d4 s4)
         \<and> practicality (fst (calculate_scores rt topic s0)) = fst (d4 s5)
         \<and> feasibility (fst (calculate_scores rt topic s0)) = fst (d4 s6)"
  unfolding calculate_scores_def d1_def d2_def d3_def d4_def Let_def
  by (auto simp: split_beta)

lemma calculate_scores_sums:
  "interest_score (fst (calculate_scores rt topic s0))
     = innovation (fst (calculate_scores rt topic s0)) + pain_point (fst (calculate_scores rt topic s0))
       + potential (fst (calculate_scores rt topic s0)) + social (fst (calculate_scores rt topic s0))"
  "utility_score (fst (calculate_scores rt topic s0))
     = practicality (fst (calculate_scores rt topic s0)) + feasibility (fst (calculate_scores rt topic s0))"
  "total (fst (calculate_scores rt topic s0))
     = interest_score (fst (calculate_scores rt topic s0)) + utility_score (fst (calculate_scores rt topic s0))"
  unfolding calculate_scores_def Let_def round1_def
  by (simp_all add: split_beta)

lemma calculate_scores_sub_ranges:
  assumes "randint_in_range rt"
  shows "15 \<le> innovation (fst (calculate_scores rt topic s0))
       \<and> innovation (fst (calculate_scores rt topic s0)) \<le> 30
       \<and> 15 \<le> pain_point (fst (calculate_scores rt topic s0))
       \<and> pain_point (fst (calculate_scores rt topic s0)) \<le> 25
       \<and> 10 \<le> potential (fst (calculate_scores rt topic s0))
       \<and> potential (fst (calculate_scores rt topic s0)) \<le> 15
       \<and> 5 \<le> social (fst (calculate_scores rt topic s0))
       \<and> social (fst (calculate_scores rt topic s0)) \<le> 10
       \<and> 5 \<le> practicality (fst (calculate_scores rt topic s0))
       \<and> practicality (fst (calculate_scores rt topic s0)) \<le> 10
       \<and> 5 \<le> feasibility (fst (calculate_scores rt topic s0))
       \<and> feasibility (fst (calculate_scores rt topic s0)) \<le> 10"
proof -
  obtain s1 s2 s3 s4 s5 s6 where
    f: "innovation (fst (calculate_scores rt topic s0)) = fst (randint rt s1 15 30)"
       "pain_point (fst (calculate_scores rt topic s0)) = fst (randint rt s2 15 25)"
       "potential (fst (calculate_scores rt topic s0)) = fst (randint rt s3 10 15)"
       "social (fst (calculate_scores rt topic s0)) = fst (randint rt s4 5 10)"
       "practicality (fst (calculate_scores rt topic s0)) = fst (randint rt s5 5 10)"
       "feasibility (fst (calculate_scores rt topic s0)) = fst (randint rt s6 5 10)"
    using calculate_scores_fields [of rt topic s0] by blast
  have "15 \<le> fst (randint rt s1 15 30) \<and> fst (randint rt s1 15 30) \<le> 30"
    using assms by (rule randint_bounds) simp
  moreover have "15 \<le> fst (randint rt s2 15 25) \<and> fst (randint rt s2 15 25) \<le> 25"
    using assms by (rule randint_bounds) simp
  moreover have "10 \<le> fst (randint rt s3 10 15) \<and> fst (randint rt s3 10 15) \<le> 15"
    using assms by (rule randint_bounds) simp
  moreover have "5 \<le> fst (randint rt s4 5 10) \<and> fst (randint rt s4 5 10) \<le> 10"
    using assms by (rule randint_bounds) simp
  moreover have "5 \<le> fst (randint rt s5 5 10) \<and> fst (randint rt s5 5 10) \<le> 10"
    using assms by (rule randint_bounds) simp
  moreover have "5 \<le> fst (randint rt s6 5 10) \<and> fst (randint rt s6 5 10) \<le> 10"
    using assms by (rule randint_bounds) simp
  ultimately show ?thesis using f by simp
qed


lemma demo_scores_a:
  "fst (calculate_scores (demo_runtime 0) [97] s)
     = \<lparr>total = 73, interest_score = 57, utility_score = 16, innovation = 16, pain_point = 20,
        potential = 13, social = 8, practicality = 8, feasibility = 8\<rparr>"
  by (simp add: calculate_scores_def demo_runtime_def round1_def)


text \<open>
  C2. Given the contract of \<open>random.randint\<close>, every sub-score of the scorer lies in its
  interval, and the total is the interest score plus the utility score, which is the sum
  of the six sub-scores.
\<close>

theorem calculate_scores_ranges:
  assumes "randint_in_range rt"
  shows "15 \<le> innovation (fst (calculate_scores rt topic s0))
       \<and> innovation (fst (calculate_scores rt topic s0)) \<le> 30
       \<and> 15 \<le> pain_point (fst (calculate_scores rt topic s0))
       \<and> pain_point (fst (calculate_scores rt topic s0)) \<le> 25
       \<and> 10 \<le> potential (fst (calculate_scores rt topic s0))
       \<and> potential (fst (calculate_scores rt topic s0)) \<le> 15
       \<and> 5 \<le> social (fst (calculate_scores rt topic s0))
       \<and> social (fst (calculate_scores rt topic s0)) \<le> 10
       \<and> 5 \<le> practicality (fst (calculate_scores rt topic s0))
       \<and> practicality (fst (calculate_scores rt topic s0)) \<le> 10
       \<and> 5 \<le> feasibility (fst (calculate_scores rt topic s0))
       \<and> feasibility (fst (calculate_scores rt topic s0)) \<le> 10
       \<and> total (fst (calculate_scores rt topic s0))
            = interest_score (fst (calculate_scores rt topic s0))
              + utility_score (fst (calculate_scores rt topic s0))
       \<and> total (fst (calculate_scores rt topic s0))
            = innovation (fst (calculate_scores rt topic s0))
              + pain_point (fst (calculate_scores rt topic s0))
              + potential (fst (calculate_scores rt topic s0))
              + social (fst (calculate_scores rt topic s0))
              + practicality (fst (calculate_scores rt topic s0))
              + feasibility (fst (calculate_scores rt topic s0))"
  using calculate_scores_sub_ranges [OF assms, of topic s0]
        calculate_scores_sums [of rt topic s0]
  by simp

theorem calculate_scores_ranges_witness:
  "randint_in_range (demo_runtime 0)
   \<and> innovation (fst (calculate_scores (demo_runtime 0) [97] 0)) = 16
   \<and> 15 \<le> innovation (fst (calculate_scores (demo_runtime 0) [97] 0))
   \<and> innovation (fst (calculate_scores (demo_runtime 0) [97] 0)) \<le> 30
   \<and> total (fst (calculate_scores (demo_runtime 0) [97] 0))
        = interest_score (fst (calculate_scores (demo_runtime 0) [97] 0))
          + utility_score (fst (calculate_scores (demo_runtime 0) [97] 0))
   \<and> total (fst (calculate_scores (demo_runtime 0) [97] 0)) = 73"
  using calculate_scores_ranges [OF demo_runtime_in_range, of 0 "[97]" 0]
        demo_runtime_in_range [of 0] demo_scores_a [of 0]
  by simp








subsection \<open>The totals on the three synthesis paths\<close>

text \<open>
  The rule engine of weibo\_hot\_analyzer.py takes its scores from the scorer, whose
  totals are sums (\<open>calculate_scores_sums\<close>).
\<close>

lemma mock_ai_analysis_scores:
  "scores (fst (mock_ai_analysis rt topic search_results s0)) = fst (calculate_scores rt topic s0)"
  by (simp add: mock_ai_analysis_def Let_def split_beta)

text \<open>
  The successful path of both LLM wrappers: when the six sub-scores of the reply are
  integers, the three totals written into the dictionary are their sums.
\<close>

lemma add_totals_sums:
  assumes "map_of scores_d [105::nat, 110, 110, 111, 118, 97, 116, 105, 111, 110] = Some (JInt a)"
      and "map_of scores_d [112::nat, 97, 105, 110, 95, 112, 111, 105, 110, 116] = Some (JInt b)"
      and "map_of scores_d [112::nat, 111, 116, 101, 110, 116, 105, 97, 108] = Some (JInt c)"
      and "map_of scores_d [115::nat, 111, 99, 105, 97, 108] = Some (JInt d)"
      and "map_of scores_d [112::nat, 114, 97, 99, 116, 105, 99, 97, 108, 105, 116, 121] = Some (JInt e)"
      and "map_of scores_d [102::nat, 101, 97, 115, 105, 98, 105, 108, 105, 116, 121] = Some (JInt f)"
  shows "\<exists>sc. add_totals scores_d = Some sc
           \<and> map_of sc [116::nat, 111, 116, 97, 108] = Some (JInt (a + b + c + d + e + f))
           \<and> map_of sc [105::nat, 110, 116, 101, 114, 101, 115, 116, 95, 115, 99, 111, 114, 101] = Some (JInt (a + b + c + d))
           \<and> map_of sc [117::nat, 116, 105, 108, 105, 116, 121, 95, 115, 99, 111, 114, 101] = Some (JInt (e + f))
           \<and> map_of sc [105::nat, 110, 110, 111, 118, 97, 116, 105, 111, 110] = Some (JInt a)
           \<and> map_of sc [112::nat, 97, 105, 110, 95, 112, 111, 105, 110, 116] = Some (JInt b)
           \<and> map_of sc [112::nat, 111, 116, 101, 110, 116, 105, 97, 108] = Some (JInt c)
           \<and> map_of sc [115::nat, 111, 99, 105, 97, 108] = Some (JInt d)
           \<and> map_of sc [112::nat, 114, 97, 99, 116, 105, 99, 97, 108, 105, 116, 121] = Some (JInt e)
           \<and> map_of sc [102::nat, 101, 97, 115, 105, 98, 105, 108, 105, 116, 121] = Some (JInt f)"
  using assms by (simp add: add_totals_def py_round1_def update_conv')

text \<open>The rule engine of weibo\_analyzer\_v2.py, field by field.\<close>

lemma rule_based_analysis_fields:
  "\<exists>s1 s2 s3 s4 s5 s6.
     scores (fst (rule_based_analysis rt topic search_results s0))
       = \<lparr>total = 0, interest_score = 0, utility_score = 0,
          innovation = fst (randint rt s1 15 30),
          pain_point = fst (randint rt s2 15 25),
          potential = fst (randint rt s3 10 15),
          social = fst (randint rt s4 5 10),
          practicality = fst (randint rt s5 5 10),
          feasibility = fst (randint rt s6 5 10)\<rparr>"
  unfolding rule_based_analysis_def Let_def
  by (auto simp: split_beta)

lemma demo_rule_based_scores:
  "scores (fst (rule_based_analysis (demo_runtime 0) [97] [] 0))
     = \<lparr>total = 0, interest_score = 0, utility_score = 0, innovation = 16, pain_point = 20,
        potential = 13, social = 8, practicality = 8, feasibility = 8\<rparr>"
  by (simp add: rule_based_analysis_def demo_runtime_def)

text \<open>
  C1. The totals are not recomputed on every path: the rule engine of
  weibo\_analyzer\_v2.py, which is the fallback of its LLM wrapper, returns the literal 0
  for \<open>total\<close>, \<open>interest_score\<close> and \<open>utility_score\<close>, while the six sub-scores it
  draws sum to at least 55.
\<close>

theorem rule_based_analysis_totals_zero:
  assumes "randint_in_range rt"
  shows "total (scores (fst (rule_based_analysis rt topic search_results s0))) = 0
       \<and> interest_score (scores (fst (rule_based_analysis rt topic search_results s0))) = 0
       \<and> utility_score (scores (fst (rule_based_analysis rt topic search_results s0))) = 0
       \<and> 55 \<le> innovation (scores (fst (rule_based_analysis rt topic search_results s0)))
               + pain_point (scores (fst (rule_based_analysis rt topic search_results s0)))
               + potential (scores (fst (rule_based_analysis rt topic search_results s0)))
               + social (scores (fst (rule_based_analysis rt topic search_results s0)))
               + practicality (scores (fst (rule_based_analysis rt topic search_results s0)))
               + feasibility (scores (fst (rule_based_analysis rt topic search_results s0)))"
proof -
  obtain s1 s2 s3 s4 s5 s6 where
    f: "scores (fst (rule_based_analysis rt topic search_results s0))
         = \<lparr>total = 0, interest_score = 0, utility_score = 0,
            innovation = fst (randint rt s1 15 30),
            pain_point = fst (randint rt s2 15 25),
            potential = fst (randint rt s3 10 15),
            social = fst (randint rt s4 5 10),
            practicality = fst (randint rt s5 5 10),
            feasibility = fst (randint rt s6 5 10)\<rparr>"
    using rule_based_analysis_fields [of rt topic search_results s0] by blast
  have "15 \<le> fst (randint rt s1 15 30)"
    using randint_bounds [OF assms, of 15 30 s1] by simp
  moreover have "15 \<le> fst (randint rt s2 15 25)"
    using randint_bounds [OF assms, of 15 25 s2] by simp
  moreover have "10 \<le> fst (randint rt s3 10 15)"
    using randint_bounds [OF assms, of 10 15 s3] by simp
  moreover have "5 \<le> fst (randint rt s4 5 10)"
    using randint_bounds [OF assms, of 5 10 s4] by simp
  moreover have "5 \<le> fst (randint rt s5 5 10)"
    using randint_bounds [OF assms, of 5 10 s5] by simp
  moreover have "5 \<le> fst (randint rt s6 5 10)"
    using randint_bounds [OF assms, of 5 10 s6] by simp
  ultimately show ?thesis by (simp add: f)
qed

theorem rule_based_analysis_totals_zero_witness:
  "randint_in_range (demo_runtime 0)
   \<and> total (scores (fst (rule_based_analysis (demo_runtime 0) [97] [] 0))) = 0
   \<and> innovation (scores (fst (rule_based_analysis (demo_runtime 0) [97] [] 0)))
       + pain_point (scores (fst (rule_based_analysis (demo_runtime 0) [97] [] 0)))
       + potential (scores (fst (rule_based_analysis (demo_runtime 0) [97] [] 0)))
       + social (scores (fst (rule_based_analysis (demo_runtime 0) [97] [] 0)))
       + practicality (scores (fst (rule_based_analysis (demo_runtime 0) [97] [] 0)))
       + feasibility (scores (fst (rule_based_analysis (demo_runtime 0) [97] [] 0))) = 73"
  using rule_based_analysis_totals_zero [OF demo_runtime_in_range, of 0 "[97]" "[]" 0]
        demo_runtime_in_range [of 0]
  by (simp add: demo_rule_based_scores)

subsection \<open>The fallback of the LLM wrappers\<close>





subsection \<open>The three-stage timeline\<close>

lemma capped_lengths:
  "length (cause (capped a b c)) \<le> 100
   \<and> length (develop (capped a b c)) \<le> 100
   \<and> length (impact (capped a b c)) \<le> 100"
  by (simp add: capped_def)

lemma stages_from_context_capped: "\<exists>a b c. stages_from_context key_info k0 k1 kl = capped a b c"
  unfolding stages_from_context_def Let_def by blast

lemma stages_pricing_capped: "\<exists>a b c. stages_pricing topic = capped a b c"
proof (cases "findall_decimal topic")
  case Nil
  then show ?thesis unfolding stages_pricing_def Let_def by simp blast
next
  case (Cons n0 ns)
  then show ?thesis unfolding stages_pricing_def Let_def
    by (cases "str_contains [32701::nat, 32466, 26381] topic") (simp, blast)+
qed

lemma stages_entertainment_capped: "\<exists>a b c. stages_entertainment topic = capped a b c"
  unfolding stages_entertainment_def Let_def
  by (cases "str_contains [36711::nat, 25103] topic";
      cases "str_contains [36830::nat, 24320] topic \<and> str_contains [22330::nat] topic") (simp, blast)+

lemma stages_game_capped: "\<exists>a b c. stages_game topic = capped a b c"
  unfolding stages_game_def Let_def
  by (cases "str_contains [19990::nat, 30028, 20043, 22806] topic \<or> str_contains [31532::nat, 20116, 20154, 26684] topic";
      cases "str_contains [24320::nat, 22823] topic") (simp, blast)+

lemma stages_tech_capped: "\<exists>a b c. stages_tech topic = capped a b c"
  unfolding stages_tech_def Let_def
  by (cases "str_contains [51::nat, 68, 25171, 21360] topic \<and> str_contains [22120::nat, 23448] topic";
      cases "str_contains [21457::nat, 24067] topic \<or> str_contains [26032::nat, 21697] topic") (simp, blast)+

lemma stages_incident_capped: "\<exists>a b c. stages_incident topic = capped a b c"
  unfolding stages_incident_def Let_def
  by (cases "str_contains [38889::nat, 22269] topic \<and> (str_contains [28779::nat, 28798] topic \<or> str_contains [20107::nat, 25925] topic)")
     (simp, blast)+

lemma stages_car_capped: "\<exists>a b c. stages_car topic = capped a b c"
  unfolding stages_car_def by blast

lemma stages_festival_capped: "\<exists>a b c. stages_festival topic = capped a b c"
  unfolding stages_festival_def by blast

lemma stages_default_capped: "\<exists>a b c. stages_default topic = capped a b c"
  unfolding stages_default_def Let_def
  by (cases "length topic \<le> 20") (simp, blast)+

lemma stages_from_topic_capped: "\<exists>a b c. stages_from_topic topic = capped a b c"
  unfolding stages_from_topic_def
  using stages_pricing_capped [of topic] stages_entertainment_capped [of topic]
        stages_game_capped [of topic] stages_tech_capped [of topic]
        stages_incident_capped [of topic] stages_car_capped [of topic]
        stages_festival_capped [of topic] stages_default_capped [of topic]
  by presburger

lemma generate_three_stage_timeline_capped:
  "\<exists>a b c. generate_three_stage_timeline topic search_results = capped a b c"
proof (cases "stage_key_info (take 5 search_results)")
  case Nil
  then show ?thesis
    using stages_from_topic_capped [of topic] by (simp add: generate_three_stage_timeline_def)
next
  case (Cons k0 ks)
  show ?thesis
  proof (cases ks)
    case Nil
    with Cons show ?thesis
      using stages_from_topic_capped [of topic] by (simp add: generate_three_stage_timeline_def)
  next
    case (Cons k1 ks')
    with \<open>stage_key_info (take 5 search_results) = k0 # ks\<close> show ?thesis
      using stages_from_context_capped [of "k0 # k1 # ks'" k0 k1 "last (k0 # k1 # ks')"]
      by (simp add: generate_three_stage_timeline_def)
  qed
qed

lemma three_stage_no_results:
  "generate_three_stage_timeline topic [] = stages_from_topic topic"
  by (simp add: generate_three_stage_timeline_def)

text \<open>
  C8. For every topic and every list of search results, the three texts of the
  three-stage timeline have at most 100 characters: every branch returns through the
  slices \<open>[:100]\<close>.
\<close>

theorem timeline_length_bound:
  "length (cause (generate_three_stage_timeline topic search_results)) \<le> 100
   \<and> length (develop (generate_three_stage_timeline topic search_results)) \<le> 100
   \<and> length (impact (generate_three_stage_timeline topic search_results)) \<le> 100"
proof -
  obtain a b c where "generate_three_stage_timeline topic search_results = capped a b c"
    using generate_three_stage_timeline_capped by blast
  then show ?thesis using capped_lengths [of a b c] by simp
qed


text \<open>
  The scenario of the specification: the topic names the retailer, the down jacket, the
  price 599 and the purchase price 199; the pricing branch answers with both numbers.
\<close>

theorem timeline_length_bound_witness:
  "generate_three_stage_timeline [32982::nat, 19996, 26469, 32701, 32466, 26381, 53, 57, 57, 20803, 36827, 20215, 49, 57, 57, 20803] []
     = \<lparr>cause = [32982::nat, 19996, 26469, 32701, 32466, 26381, 53, 57, 57, 20803, 36827, 20215, 49, 57, 57, 20803, 26333, 20809, 65292, 32982, 19996, 26469, 21830, 21697, 23450, 20215, 24341, 21457, 28909, 35758],
        develop = [32593::nat, 21451, 28909, 35758, 39, 53, 57, 57, 20803, 39, 21806, 20215, 19982, 39, 49, 57, 57, 20803, 39, 36827, 20215, 30340, 20215, 24046],
        impact = [32982::nat, 19996, 26469, 22238, 24212, 33286, 35770, 65292, 20844, 20247, 20851, 27880, 21830, 21697, 23450, 20215, 36879, 26126, 24230, 19982, 21830, 19994, 21033, 28070]\<rparr>
   \<and> length (cause (generate_three_stage_timeline [32982::nat, 19996, 26469, 32701, 32466, 26381, 53, 57, 57, 20803, 36827, 20215, 49, 57, 57, 20803] [])) \<le> 100
   \<and> length (develop (generate_three_stage_timeline [32982::nat, 19996, 26469, 32701, 32466, 26381, 53, 57, 57, 20803, 36827, 20215, 49, 57, 57, 20803] [])) \<le> 100
   \<and> length (impact (generate_three_stage_timeline [32982::nat, 19996, 26469, 32701, 32466, 26381, 53, 57, 57, 20803, 36827, 20215, 49, 57, 57, 20803] [])) \<le> 100"
proof -
  have "generate_three_stage_timeline [32982::nat, 19996, 26469, 32701, 32466, 26381, 53, 57, 57, 20803, 36827, 20215, 49, 57, 57, 20803] []
     = \<lparr>cause = [32982::nat, 19996, 26469, 32701, 32466, 26381, 53, 57, 57, 20803, 36827, 20215, 49, 57, 57, 20803, 26333, 20809, 65292, 32982, 19996, 26469, 21830, 21697, 23450, 20215, 24341, 21457, 28909, 35758],
        develop = [32593::nat, 21451, 28909, 35758, 39, 53, 57, 57, 20803, 39, 21806, 20215, 19982, 39, 49, 57, 57, 20803, 39, 36827, 20215, 30340, 20215, 24046],
        impact = [32982::nat, 19996, 26469, 22238, 24212, 33286, 35770, 65292, 20844, 20247, 20851, 27880, 21830, 21697, 23450, 20215, 36879, 26126, 24230, 19982, 21830, 19994, 21033, 28070]\<rparr>"
    by (simp add: three_stage_no_results stages_from_topic_def any_in_def stages_pricing_def
          capped_def is_digit_def digit_ranges_def match_decimal_def)
  with timeline_length_bound [of "[32982::nat, 19996, 26469, 32701, 32466, 26381, 53, 57, 57, 20803, 36827, 20215, 49, 57, 57, 20803]" "[]"] show ?thesis by blast
qed

subsection \<open>The empty topic\<close>

lemma analyze_empty_topic:
  "analyze_topic_keywords [] = \<lparr>atype = [32508::nat, 21512, 36164, 35759], theme = [28909::nat, 28857, 36861, 36394]\<rparr>"
  by (simp add: analyze_topic_keywords_def theme_patterns_def any_in_def)

lemma event_timeline_from_topic_nonempty: "event_timeline_from_topic topic \<noteq> []"
  by (simp add: event_timeline_from_topic_def)

lemma event_timeline_from_context_nonempty:
  "event_timeline_from_context topic key_info k0 k1 kl \<noteq> []"
  by (simp add: event_timeline_from_context_def Let_def)

lemma generate_event_timeline_nonempty: "generate_event_timeline topic search_results \<noteq> []"
  by (simp add: generate_event_timeline_def event_timeline_from_topic_nonempty
        event_timeline_from_context_nonempty split: list.splits)

text \<open>
  C9. On the empty topic the classifier answers the general type, and the rule engine
  returns (the model has no error result, because no step of the function can raise) the
  generic templates: the name is the pair of corner brackets followed by "smart analysis
  assistant", and every text of the record is non-empty, for every list of search
  results. The scores are numbers.
\<close>

theorem empty_topic_analysis:
  "analyze_topic_keywords [] = \<lparr>atype = [32508::nat, 21512, 36164, 35759], theme = [28909::nat, 28857, 36861, 36394]\<rparr>
   \<and> name (fst (mock_ai_analysis rt [] search_results s0)) = [12300::nat, 12301, 26234, 33021, 20998, 26512, 21161, 25163]
   \<and> event_timeline (fst (mock_ai_analysis rt [] search_results s0))
       = Some (generate_event_timeline [] search_results)
   \<and> generate_event_timeline [] search_results \<noteq> []
   \<and> length (core_features (fst (mock_ai_analysis rt [] search_results s0))) = 5
   \<and> [] \<notin> set (core_features (fst (mock_ai_analysis rt [] search_results s0)))
   \<and> length (market_pain_points (fst (mock_ai_analysis rt [] search_results s0))) = 5
   \<and> [] \<notin> set (market_pain_points (fst (mock_ai_analysis rt [] search_results s0)))
   \<and> target_users (fst (mock_ai_analysis rt [] search_results s0)) \<noteq> []
   \<and> length (innovation_points (fst (mock_ai_analysis rt [] search_results s0))) = 5
   \<and> [] \<notin> set (innovation_points (fst (mock_ai_analysis rt [] search_results s0)))
   \<and> market_size (market_potential (fst (mock_ai_analysis rt [] search_results s0))) \<noteq> []
   \<and> growth_stage (market_potential (fst (mock_ai_analysis rt [] search_results s0))) \<noteq> []
   \<and> competitive_advantage (market_potential (fst (mock_ai_analysis rt [] search_results s0))) \<noteq> []
   \<and> revenue_model (market_potential (fst (mock_ai_analysis rt [] search_results s0))) \<noteq> []"
  by (simp add: analyze_empty_topic mock_ai_analysis_def Let_def split_beta
        generate_event_timeline_nonempty generate_product_name_def
        generate_core_features_by_topic_def generate_pain_points_by_topic_def
        generate_target_users_by_topic_def generate_innovation_points_by_topic_def
        generate_market_potential_by_topic_def)

theorem empty_topic_analysis_witness:
  "name (fst (mock_ai_analysis (demo_runtime 0) [] [] 0)) = [12300::nat, 12301, 26234, 33021, 20998, 26512, 21161, 25163]
   \<and> event_timeline (fst (mock_ai_analysis (demo_runtime 0) [] [] 0))
       = Some [39::nat, 39, 35805, 39064, 24341, 21457, 24191, 27867, 35752, 35770, 12290, 32593, 21451, 20174, 19981, 21516, 35282, 24230, 34920, 36798, 35266, 28857, 65292, 30456, 20851, 20869, 23481, 22312, 31038, 20132, 24179, 21488, 24555, 36895, 20256, 25773, 65292, 28909, 24230, 25345, 32493, 36208, 39640, 12290]
   \<and> target_users (fst (mock_ai_analysis (demo_runtime 0) [] [] 0))
       = [20851::nat, 27880, 39, 39, 35805, 39064, 30340, 29992, 25143, 32676, 20307, 65292, 24076, 26395, 33719, 21462, 30456, 20851, 28145, 24230, 20449, 24687, 21644, 19987, 19994, 20998, 26512]
   \<and> length (core_features (fst (mock_ai_analysis (demo_runtime 0) [] [] 0))) = 5"
proof -
  have "generate_event_timeline [] []
          = [39::nat, 39, 35805, 39064, 24341, 21457, 24191, 27867, 35752, 35770, 12290, 32593, 21451, 20174, 19981, 21516, 35282, 24230, 34920, 36798, 35266, 28857, 65292, 30456, 20851, 20869, 23481, 22312, 31038, 20132, 24179, 21488, 24555, 36895, 20256, 25773, 65292, 28909, 24230, 25345, 32493, 36208, 39640, 12290]"
    by (simp add: generate_event_timeline_def event_timeline_from_topic_def any_in_def)
  moreover have "target_users (fst (mock_ai_analysis (demo_runtime 0) [] [] 0))
          = [20851::nat, 27880, 39, 39, 35805, 39064, 30340, 29992, 25143, 32676, 20307, 65292, 24076, 26395, 33719, 21462, 30456, 20851, 28145, 24230, 20449, 24687, 21644, 19987, 19994, 20998, 26512]"
    by (simp add: analyze_empty_topic mock_ai_analysis_def Let_def split_beta
          generate_target_users_by_topic_def)
  ultimately show ?thesis
    using empty_topic_analysis [of "demo_runtime 0" "[]" 0] by simp
qed


subsection \<open>The sort of the report\<close>

lemma sorted_reverse_descending: "sorted_wrt (\<lambda>a b. f b \<le> f a) (sorted_reverse f xs)"
proof -
  have "sorted (map f (sort_key f (rev xs)))" by simp
  then have "sorted_wrt (\<lambda>a b. f a \<le> f b) (sort_key f (rev xs))"
    by (simp add: sorted_map)
  then show ?thesis by (simp add: sorted_reverse_def sorted_wrt_rev)
qed

lemma sorted_reverse_stable:
  "filter (\<lambda>x. f x = k) (sorted_reverse f xs) = filter (\<lambda>x. f x = k) xs"
proof -
  have "filter (\<lambda>x. f x = k) (sorted_reverse f xs)
          = rev (filter (\<lambda>x. f x = k) (sort_key f (rev xs)))"
    by (simp add: sorted_reverse_def rev_filter)
  also have "\<dots> = rev (filter (\<lambda>x. f x = k) (rev xs))"
    by (simp add: sort_key_stable)
  also have "\<dots> = filter (\<lambda>x. f x = k) xs"
    by (simp add: rev_filter)
  finally show ?thesis .
qed

lemma sorted_reverse_same_elements:
  "length (sorted_reverse f xs) = length xs \<and> set (sorted_reverse f xs) = set xs"
  by (simp add: sorted_reverse_def)

lemma those_map_Some: "those (map (\<lambda>x. Some (g x)) xs) = Some (map g xs)"
  by (induction xs) simp_all

lemma keyed_topics_total:
  "\<forall>x\<in>set es. analysis_total (td_analysis x) = Some (key x)
   \<Longrightarrow> keyed_topics es = Some (map (\<lambda>x. (key x, x)) es)"
  unfolding keyed_topics_def by (induction es) simp_all

lemma insort_key_paired:
  "insort_key fst (key x, x) (map (\<lambda>y. (key y, y)) ys)
     = map (\<lambda>y. (key y, y)) (insort_key key x ys)"
  by (induction ys) simp_all

lemma sort_key_paired:
  "sort_key fst (map (\<lambda>y. (key y, y)) ys) = map (\<lambda>y. (key y, y)) (sort_key key ys)"
  by (induction ys) (simp_all add: insort_key_paired)

lemma sorted_reverse_paired:
  "map snd (sorted_reverse fst (map (\<lambda>y. (key y, y)) ys)) = sorted_reverse key ys"
  by (simp add: sorted_reverse_def rev_map sort_key_paired comp_def)

lemma sorted_topics_v2_total:
  assumes "\<forall>x\<in>set es. analysis_total (td_analysis x) = Some (key x)"
  shows "sorted_topics_v2 es = Some (sorted_reverse key es)"
  by (simp add: sorted_topics_v2_def keyed_topics_total [OF assms] sorted_reverse_paired)

text \<open>
  C7. The report of weibo\_hot\_analyzer.py lists the entries by total descending, and
  the entries of one total in the order of the input: the entries with a total \<open>k\<close>,
  taken from the sorted list, are the entries with the total \<open>k\<close> of the input, in the
  same order. The sorted list has the elements of the input. The report of
  weibo\_analyzer\_v2.py sorts the same way, whenever each entry has an integer total
  (\<open>key x\<close> for the entry \<open>x\<close>); without one the key raises.
\<close>

theorem report_sort_stable:
  "sorted_wrt (\<lambda>a b. total (scores (td_analysis b)) \<le> total (scores (td_analysis a)))
     (sorted_topics (generate_html_report entries))
   \<and> filter (\<lambda>x. total (scores (td_analysis x)) = k) (sorted_topics (generate_html_report entries))
       = filter (\<lambda>x. total (scores (td_analysis x)) = k) entries
   \<and> length (sorted_topics (generate_html_report entries)) = length entries
   \<and> set (sorted_topics (generate_html_report entries)) = set entries
   \<and> ((\<forall>x\<in>set entries2. analysis_total (td_analysis x) = Some (key x))
        \<longrightarrow> (\<exists>out. sorted_topics_v2 entries2 = Some out
                  \<and> sorted_wrt (\<lambda>a b. key b \<le> key a) out
                  \<and> filter (\<lambda>x. key x = k) out = filter (\<lambda>x. key x = k) entries2
                  \<and> length out = length entries2
                  \<and> set out = set entries2))"
proof -
  have v1: "sorted_topics (generate_html_report entries)
              = sorted_reverse (\<lambda>x. total (scores (td_analysis x))) entries"
    by (simp add: generate_html_report_def Let_def)
  show ?thesis
    unfolding v1
    using sorted_reverse_descending [of "\<lambda>x. total (scores (td_analysis x))" entries]
          sorted_reverse_stable [of "\<lambda>x. total (scores (td_analysis x))" k entries]
          sorted_reverse_same_elements [of "\<lambda>x. total (scores (td_analysis x))" entries]
          sorted_reverse_descending [of key entries2]
          sorted_reverse_stable [of key k entries2]
          sorted_reverse_same_elements [of key entries2]
          sorted_topics_v2_total [of entries2 key]
    by simp
qed

lemma analyze_product_idea_scores:
  "scores (fst (analyze_product_idea rt topic search_results s0)) = fst (calculate_scores rt topic s0)"
  by (simp add: analyze_product_idea_def mock_ai_analysis_scores)

lemma demo_scores_ab:
  "fst (calculate_scores (demo_runtime 0) [97, 98] s)
     = \<lparr>total = 72, interest_score = 56, utility_score = 16, innovation = 18, pain_point = 17,
        potential = 13, social = 8, practicality = 8, feasibility = 8\<rparr>"
  by (simp add: calculate_scores_def demo_runtime_def round1_def)

lemma demo_scores_ba:
  "fst (calculate_scores (demo_runtime 0) [98, 97] s)
     = \<lparr>total = 72, interest_score = 56, utility_score = 16, innovation = 18, pain_point = 17,
        potential = 13, social = 8, practicality = 8, feasibility = 8\<rparr>"
  by (simp add: calculate_scores_def demo_runtime_def round1_def)

text \<open>
  The main loop on the topics "ab", "a" and "ba" with the demo runtime gives the totals
  72, 73 and 72: the report lists "a" first and keeps "ab" before "ba". Three parsed
  replies with the totals 72, 85 and 85 are listed second, third, first.
\<close>

theorem report_sort_stable_witness:
  "map (\<lambda>x. total (scores (td_analysis x))) (fst (analyze_hot_list (demo_runtime 0) (\<lambda>t. []) False 1 [demo_hot [97, 98], demo_hot [97], demo_hot [98, 97]] 0)) = [72, 73, 72]
   \<and> map td_topic (sorted_topics (generate_html_report (fst (analyze_hot_list (demo_runtime 0) (\<lambda>t. []) False 1 [demo_hot [97, 98], demo_hot [97], demo_hot [98, 97]] 0)))) = [[97], [97, 98], [98, 97]]
   \<and> filter (\<lambda>x. total (scores (td_analysis x)) = 72) (sorted_topics (generate_html_report (fst (analyze_hot_list (demo_runtime 0) (\<lambda>t. []) False 1 [demo_hot [97, 98], demo_hot [97], demo_hot [98, 97]] 0))))
       = filter (\<lambda>x. total (scores (td_analysis x)) = 72) (fst (analyze_hot_list (demo_runtime 0) (\<lambda>t. []) False 1 [demo_hot [97, 98], demo_hot [97], demo_hot [98, 97]] 0))
   \<and> map demo_key [demo_reply_entry [97] 72, demo_reply_entry [98] 85, demo_reply_entry [99] 85] = [72, 85, 85]
   \<and> sorted_topics_v2 [demo_reply_entry [97] 72, demo_reply_entry [98] 85, demo_reply_entry [99] 85]
       = Some [demo_reply_entry [98] 85, demo_reply_entry [99] 85, demo_reply_entry [97] 72]
   \<and> filter (\<lambda>x. demo_key x = 85)
         [demo_reply_entry [98] 85, demo_reply_entry [99] 85, demo_reply_entry [97] 72]
       = filter (\<lambda>x. demo_key x = 85) [demo_reply_entry [97] 72, demo_reply_entry [98] 85, demo_reply_entry [99] 85]"
proof -
  have a: "map (\<lambda>x. total (scores (td_analysis x))) (fst (analyze_hot_list (demo_runtime 0) (\<lambda>t. []) False 1 [demo_hot [97, 98], demo_hot [97], demo_hot [98, 97]] 0)) = [72, 73, 72]"
    by (simp add: Let_def split_beta demo_hot_def hot_topic_def analyze_product_idea_scores
          demo_scores_ab demo_scores_ba demo_scores_a)
  have b: "map td_topic (sorted_topics (generate_html_report (fst (analyze_hot_list (demo_runtime 0) (\<lambda>t. []) False 1 [demo_hot [97, 98], demo_hot [97], demo_hot [98, 97]] 0)))) = [[97], [97, 98], [98, 97]]"
    by (simp add: generate_html_report_def Let_def sorted_reverse_def split_beta demo_hot_def
          hot_topic_def analyze_product_idea_scores demo_scores_ab demo_scores_ba demo_scores_a)
  have c: "\<forall>x\<in>set [demo_reply_entry [97] 72, demo_reply_entry [98] 85, demo_reply_entry [99] 85]. analysis_total (td_analysis x) = Some (demo_key x)"
    by (simp add: demo_key_def analysis_total_def demo_reply_entry_def)
  have d: "sorted_topics_v2 [demo_reply_entry [97] 72, demo_reply_entry [98] 85, demo_reply_entry [99] 85]
             = Some [demo_reply_entry [98] 85, demo_reply_entry [99] 85, demo_reply_entry [97] 72]"
    by (simp add: sorted_topics_v2_def keyed_topics_def sorted_reverse_def analysis_total_def
          demo_reply_entry_def)
  note t = report_sort_stable [of "fst (analyze_hot_list (demo_runtime 0) (\<lambda>t. []) False 1 [demo_hot [97, 98], demo_hot [97], demo_hot [98, 97]] 0)" 72 "[demo_reply_entry [97] 72, demo_reply_entry [98] 85, demo_reply_entry [99] 85]" demo_key]
  from t have e: "filter (\<lambda>x. total (scores (td_analysis x)) = 72) (sorted_topics (generate_html_report (fst (analyze_hot_list (demo_runtime 0) (\<lambda>t. []) False 1 [demo_hot [97, 98], demo_hot [97], demo_hot [98, 97]] 0))))
       = filter (\<lambda>x. total (scores (td_analysis x)) = 72) (fst (analyze_hot_list (demo_runtime 0) (\<lambda>t. []) False 1 [demo_hot [97, 98], demo_hot [97], demo_hot [98, 97]] 0))"
    by (rule conjunct1 [OF conjunct2])
  have k: "map demo_key [demo_reply_entry [97] 72, demo_reply_entry [98] 85, demo_reply_entry [99] 85] = [72, 85, 85]"
    by (simp add: demo_key_def analysis_total_def demo_reply_entry_def)
  note t85 = report_sort_stable [of "[]" 85 "[demo_reply_entry [97] 72, demo_reply_entry [98] 85, demo_reply_entry [99] 85]" demo_key]
  from t85 c obtain out where
    o: "sorted_topics_v2 [demo_reply_entry [97] 72, demo_reply_entry [98] 85, demo_reply_entry [99] 85] = Some out"
       "filter (\<lambda>x. demo_key x = 85) out = filter (\<lambda>x. demo_key x = 85) [demo_reply_entry [97] 72, demo_reply_entry [98] 85, demo_reply_entry [99] 85]"
    by blast
  from o d have f: "filter (\<lambda>x. demo_key x = 85)
         [demo_reply_entry [98] 85, demo_reply_entry [99] 85, demo_reply_entry [97] 72]
       = filter (\<lambda>x. demo_key x = 85) [demo_reply_entry [97] 72, demo_reply_entry [98] 85, demo_reply_entry [99] 85]"
    by simp
  from a b e k d f show ?thesis by (intro conjI)
qed

subsection \<open>The timeline of the report\<close>

lemma topic_card_timeline:
  "card_timeline (topic_card x) = generate_three_stage_timeline (td_topic x) []
   \<and> card_topic (topic_card x) = td_topic x"
  by (simp add: topic_card_def Let_def analysis_get_search_results_def)

lemma analyze_hot_list_search_results:
  "map td_search_results (fst (analyze_hot_list rt web_search_topic True i hots s0))
     = map (\<lambda>hot. web_search_topic (hot_topic hot)) hots"
  by (induction hots arbitrary: i s0) (simp_all add: Let_def split_beta)

text \<open>
  C10. The report of weibo\_hot\_analyzer.py renders, for every entry, the timeline that
  \<open>generate_three_stage_timeline\<close> builds from the topic and the empty list of search
  results, whatever search results the entry holds: the report looks for them inside the
  analysis, and the main loop stores them in the entry, beside the analysis.
\<close>

theorem report_timeline_without_search_results:
  "map card_timeline (cards (generate_html_report entries))
     = map (\<lambda>x. generate_three_stage_timeline (td_topic x) [])
           (sorted_topics (generate_html_report entries))
   \<and> map td_search_results (fst (analyze_hot_list rt web_search_topic True i hots s0))
       = map (\<lambda>hot. web_search_topic (hot_topic hot)) hots
   \<and> (main rt web_search_topic enable_web_search hot_list s0 = Some rep
        \<longrightarrow> (\<forall>c\<in>set (cards rep).
               card_timeline c = generate_three_stage_timeline (card_topic c) []))"
proof -
  have a: "map card_timeline (cards (generate_html_report es))
             = map (\<lambda>x. generate_three_stage_timeline (td_topic x) [])
                   (sorted_topics (generate_html_report es))" for es
    by (simp add: generate_html_report_def Let_def topic_card_timeline)
  have b: "\<forall>c\<in>set (cards (generate_html_report es)).
             card_timeline c = generate_three_stage_timeline (card_topic c) []" for es
    by (auto simp: generate_html_report_def Let_def topic_card_timeline)
  have c: "main rt web_search_topic enable_web_search hot_list s0 = Some rep
             \<longrightarrow> (\<forall>c\<in>set (cards rep).
                    card_timeline c = generate_three_stage_timeline (card_topic c) [])"
    using b by (auto simp: main_def split: if_splits)
  from a [of entries] analyze_hot_list_search_results [of rt web_search_topic i hots s0] c
  show ?thesis by blast
qed


lemma demo_context_cause:
  "cause (generate_three_stage_timeline [97] (demo_search [97]))
     = [97::nat, 32, 102, 105, 114, 115, 116, 32, 114, 101, 112, 111, 114, 116, 32, 111, 110, 32, 116, 104, 101, 32, 101, 118, 101, 110, 116, 25104, 20026, 20851, 27880, 28966, 28857]"
  by (simp add: generate_three_stage_timeline_def demo_search_def split_title_def before_sep_def
        py_strip_def is_space_def stages_from_context_def capped_def)

lemma demo_topic_stages:
  "generate_three_stage_timeline [97] []
     = \<lparr>cause = [97::nat, 25104, 20026, 28909, 38376, 35805, 39064], develop = [32593::nat, 21451, 20174, 19981, 21516, 35282, 24230, 35752, 35770, 97],
        impact = [97::nat, 30456, 20851, 35752, 35770, 28909, 24230, 25345, 32493, 65292, 24433, 21709, 25193, 22823]\<rparr>"
  by (simp add: three_stage_no_results stages_from_topic_def any_in_def stages_default_def
        capped_def)

text \<open>
  The main loop on the topic "a" with a web search that finds two usable titles: the
  entry holds them, and the timeline generator would build the cause from the first
  title, but the card of the report shows the timeline built from the topic alone.
\<close>

theorem report_timeline_without_search_results_witness:
  "map td_search_results (fst (analyze_hot_list (demo_runtime 0) demo_search True 1 [demo_hot [97]] 0)) = [demo_search [97]]
   \<and> cause (generate_three_stage_timeline [97] (demo_search [97]))
       = [97::nat, 32, 102, 105, 114, 115, 116, 32, 114, 101, 112, 111, 114, 116, 32, 111, 110, 32, 116, 104, 101, 32, 101, 118, 101, 110, 116, 25104, 20026, 20851, 27880, 28966, 28857]
   \<and> main (demo_runtime 0) demo_search True [demo_hot [97]] 0 = Some (generate_html_report (fst (analyze_hot_list (demo_runtime 0) demo_search True 1 [demo_hot [97]] 0)))
   \<and> map card_topic (cards (generate_html_report (fst (analyze_hot_list (demo_runtime 0) demo_search True 1 [demo_hot [97]] 0)))) = [[97]]
   \<and> map card_timeline (cards (generate_html_report (fst (analyze_hot_list (demo_runtime 0) demo_search True 1 [demo_hot [97]] 0))))
       = [\<lparr>cause = [97::nat, 25104, 20026, 28909, 38376, 35805, 39064], develop = [32593::nat, 21451, 20174, 19981, 21516, 35282, 24230, 35752, 35770, 97],
           impact = [97::nat, 30456, 20851, 35752, 35770, 28909, 24230, 25345, 32493, 65292, 24433, 21709, 25193, 22823]\<rparr>]"
proof -
  note t = report_timeline_without_search_results
             [where entries = "fst (analyze_hot_list (demo_runtime 0) demo_search True 1 [demo_hot [97]] 0)" and rt = "demo_runtime 0" and web_search_topic = demo_search
                and i = 1 and hots = "[demo_hot [97]]" and ?s0.0 = 0 and enable_web_search = True
                and hot_list = "[demo_hot [97]]" and rep = "generate_html_report (fst (analyze_hot_list (demo_runtime 0) demo_search True 1 [demo_hot [97]] 0))"]
  have m: "main (demo_runtime 0) demo_search True [demo_hot [97]] 0 = Some (generate_html_report (fst (analyze_hot_list (demo_runtime 0) demo_search True 1 [demo_hot [97]] 0)))"
    by (simp add: main_def)
  from t have a: "map td_search_results (fst (analyze_hot_list (demo_runtime 0) demo_search True 1 [demo_hot [97]] 0)) = [demo_search [97]]"
    by (simp add: demo_hot_def hot_topic_def)
  from t m have b: "\<forall>c\<in>set (cards (generate_html_report (fst (analyze_hot_list (demo_runtime 0) demo_search True 1 [demo_hot [97]] 0)))).
         card_timeline c = generate_three_stage_timeline (card_topic c) []"
    by blast
  have d: "map card_topic (cards (generate_html_report (fst (analyze_hot_list (demo_runtime 0) demo_search True 1 [demo_hot [97]] 0)))) = [[97]]"
    by (simp add: generate_html_report_def Let_def sorted_reverse_def split_beta demo_hot_def
          hot_topic_def topic_card_timeline)
  from b d have "map card_timeline (cards (generate_html_report (fst (analyze_hot_list (demo_runtime 0) demo_search True 1 [demo_hot [97]] 0))))
                   = [generate_three_stage_timeline [97] []]"
    by (cases "cards (generate_html_report (fst (analyze_hot_list (demo_runtime 0) demo_search True 1 [demo_hot [97]] 0)))") auto
  then have c: "map card_timeline (cards (generate_html_report (fst (analyze_hot_list (demo_runtime 0) demo_search True 1 [demo_hot [97]] 0))))
       = [\<lparr>cause = [97::nat, 25104, 20026, 28909, 38376, 35805, 39064], develop = [32593::nat, 21451, 20174, 19981, 21516, 35282, 24230, 35752, 35770, 97],
           impact = [97::nat, 30456, 20851, 35752, 35770, 28909, 24230, 25345, 32493, 65292, 24433, 21709, 25193, 22823]\<rparr>]"
    by (simp add: demo_topic_stages)
  from a demo_context_cause m d c show ?thesis by (intro conjI)
qed

end
